theory Spec2Isabelle
  imports Main "HOL-Library.AList"
begin

section \<open>Python values, exceptions and paths\<close>

text \<open>
  The exceptions the program can meet.  \<open>RuntimeError\<close> is what the table library
  raises when a table or a column cannot be read, \<open>OSError\<close> what \<open>os.listdir\<close>
  raises on a path that is not a readable directory.
\<close>

datatype exn = RuntimeError | IndexError | ValueError | TypeError | KeyError | OSError

text \<open>\<open>str(n)\<close> for a Python integer: decimal digits, a minus sign when negative.\<close>

definition digit_char :: "nat \<Rightarrow> char" where
  "digit_char d = ''0123456789'' ! d"

function str_nat :: "nat \<Rightarrow> string" where
  "str_nat n = (if n < 10 then [digit_char n] else str_nat (n div 10) @ [digit_char (n mod 10)])"
  by pat_completeness auto
termination
  by (relation "measure (\<lambda>n. n)") auto

definition str_int :: "int \<Rightarrow> string" where
  "str_int i = (if i < 0 then CHR ''-'' # str_nat (nat (- i)) else str_nat (nat i))"

text \<open>
  \<open>os.path.join(a, b)\<close> on a POSIX system: an absolute second part replaces the
  first, otherwise the parts are joined by one separator.
\<close>

definition path_join :: "string \<Rightarrow> string \<Rightarrow> string" where
  "path_join a b =
     (if b \<noteq> [] \<and> hd b = CHR ''/'' then b
      else if a = [] \<or> last a = CHR ''/'' then a @ b
      else a @ ''/'' @ b)"

text \<open>
  \<open>str.strip()\<close>: leading and trailing whitespace removed.  The whitespace
  characters of the ASCII range are tab, line feed, vertical tab, form feed, carriage
  return, the four separators 28..31 and the space.
\<close>

definition is_space :: "char \<Rightarrow> bool" where
  "is_space c = (c \<in> set [CHR 0x09, CHR 0x0A, CHR 0x0B, CHR 0x0C, CHR 0x0D,
                              CHR 0x1C, CHR 0x1D, CHR 0x1E, CHR 0x1F, CHR 0x20])"

definition strip :: "string \<Rightarrow> string" where
  "strip s = rev (dropWhile is_space (rev (dropWhile is_space s)))"

section \<open>Arrays and table columns\<close>

text \<open>
  A numpy array: its shape and its elements in row-major order.
\<close>

datatype 'a ndarray = NDArray (shape: "nat list") (items: "'a list")

text \<open>\<open>a.flatten()\<close>: the same elements as a one-dimensional array.\<close>

definition flatten :: "'a ndarray \<Rightarrow> 'a ndarray" where
  "flatten a = NDArray [length (items a)] (items a)"

text \<open>
  \<open>a[:, :, k]\<close> on a three-dimensional array of shape \<open>[r, c, n]\<close>: element
  \<open>(i, j)\<close> of the result is element \<open>(i, j, k)\<close> of \<open>a\<close>.  A negative \<open>k\<close>
  counts from the end; an index outside \<open>-n \<le> k < n\<close> raises IndexError, and so does
  the three-fold index on an array of another dimension.
\<close>

definition slice_last :: "'a ndarray \<Rightarrow> int \<Rightarrow> exn + 'a ndarray" where
  "slice_last a k =
     (case shape a of
        [r, c, n] \<Rightarrow>
          (let j = (if k < 0 then int n + k else k) in
           if 0 \<le> j \<and> j < int n
           then Inr (NDArray [r, c] (map (\<lambda>i. items a ! (i * n + nat j)) [0..<r * c]))
           else Inl IndexError)
      | _ \<Rightarrow> Inl IndexError)"

text \<open>
  \<open>a[mask]\<close> with a one-dimensional boolean mask on an array of at most one
  dimension, as \<open>load_ms_data\<close> has them: the elements at the positions where the
  mask is True, in order.  The lengths must agree, otherwise numpy raises IndexError; a
  zero-dimensional \<open>a\<close> cannot be indexed.
\<close>

definition bool_index :: "'a ndarray \<Rightarrow> bool ndarray \<Rightarrow> exn + 'a ndarray" where
  "bool_index a m =
     (case (shape a, shape m) of
        ([n], [k]) \<Rightarrow>
          if n = k
          then (let kept = map fst (filter snd (zip (items a) (items m)))
                in Inr (NDArray [length kept] kept))
          else Inl IndexError
      | _ \<Rightarrow> Inl IndexError)"

text \<open>
  \<open>a[idx]\<close> with a one-dimensional integer index array: one element per index,
  negative indices counting from the end, IndexError when an index is out of bounds.
\<close>

fun gather :: "'a list \<Rightarrow> int list \<Rightarrow> exn + 'a list" where
  "gather xs [] = Inr []"
| "gather xs (i # is) =
     (let n = int (length xs); j = (if i < 0 then n + i else i) in
      if 0 \<le> j \<and> j < n
      then (case gather xs is of Inl e \<Rightarrow> Inl e | Inr ys \<Rightarrow> Inr (xs ! nat j # ys))
      else Inl IndexError)"

definition int_index :: "'a ndarray \<Rightarrow> int ndarray \<Rightarrow> exn + 'a ndarray" where
  "int_index a idx =
     (case shape a of
        [n] \<Rightarrow> (case gather (items a) (items idx) of
                  Inl e \<Rightarrow> Inl e
                | Inr ys \<Rightarrow> Inr (NDArray [length ys] ys))
      | _ \<Rightarrow> Inl IndexError)"

text \<open>
  The program never computes on a floating-point or complex sample.  What it can
  observe of one is its printed form (\<open>str\<close>) and, as a dictionary key, the integer it
  equals, if any.  A sample is kept as these two observations.
\<close>

datatype sample = Sample (repr: string) (as_int: "int option")

text \<open>A column as \<open>getcol\<close> returns it: an array of one element type.\<close>

datatype column = BoolArr "bool ndarray" | IntArr "int ndarray" | NumArr "sample ndarray"

fun col_shape :: "column \<Rightarrow> nat list" where
  "col_shape (BoolArr a) = shape a"
| "col_shape (IntArr a) = shape a"
| "col_shape (NumArr a) = shape a"

definition col_ndim :: "column \<Rightarrow> nat" where
  "col_ndim a = length (col_shape a)"

fun col_size :: "column \<Rightarrow> nat" where
  "col_size (BoolArr a) = length (items a)"
| "col_size (IntArr a) = length (items a)"
| "col_size (NumArr a) = length (items a)"

fun col_flatten :: "column \<Rightarrow> column" where
  "col_flatten (BoolArr a) = BoolArr (flatten a)"
| "col_flatten (IntArr a) = IntArr (flatten a)"
| "col_flatten (NumArr a) = NumArr (flatten a)"

fun col_slice_last :: "column \<Rightarrow> int \<Rightarrow> exn + column" where
  "col_slice_last (BoolArr a) k = map_sum id BoolArr (slice_last a k)"
| "col_slice_last (IntArr a) k = map_sum id IntArr (slice_last a k)"
| "col_slice_last (NumArr a) k = map_sum id NumArr (slice_last a k)"

text \<open>
  \<open>~a\<close>: logical negation on a boolean array, bitwise complement on an integer
  array, TypeError on floating-point or complex data.
\<close>

fun col_invert :: "column \<Rightarrow> exn + column" where
  "col_invert (BoolArr a) = Inr (BoolArr (NDArray (shape a) (map Not (items a))))"
| "col_invert (IntArr a) = Inr (IntArr (NDArray (shape a) (map (\<lambda>i. - i - 1) (items a))))"
| "col_invert (NumArr a) = Inl TypeError"

text \<open>
  \<open>a[mask]\<close>: boolean-mask selection for a boolean mask, integer-array indexing for
  an integer one, IndexError for any other index array.
\<close>

fun col_index :: "column \<Rightarrow> column \<Rightarrow> exn + column" where
  "col_index (BoolArr a) (BoolArr m) = map_sum id BoolArr (bool_index a m)"
| "col_index (IntArr a) (BoolArr m) = map_sum id IntArr (bool_index a m)"
| "col_index (NumArr a) (BoolArr m) = map_sum id NumArr (bool_index a m)"
| "col_index (BoolArr a) (IntArr m) = map_sum id BoolArr (int_index a m)"
| "col_index (IntArr a) (IntArr m) = map_sum id IntArr (int_index a m)"
| "col_index (NumArr a) (IntArr m) = map_sum id NumArr (int_index a m)"
| "col_index a (NumArr m) = Inl IndexError"

text \<open>The elements of a column, tagged with their type: how a column is observed.\<close>

datatype cell = BoolV bool | IntV int | NumV sample

fun col_cells :: "column \<Rightarrow> cell list" where
  "col_cells (BoolArr a) = map BoolV (items a)"
| "col_cells (IntArr a) = map IntV (items a)"
| "col_cells (NumArr a) = map NumV (items a)"

text \<open>
  A column of a table is well formed when it has as many elements as its shape says
  and at least one dimension (the row axis).
\<close>

definition wf_column :: "column \<Rightarrow> bool" where
  "wf_column a = (col_size a = prod_list (col_shape a) \<and> 1 \<le> col_ndim a)"

section \<open>Tables and the file system\<close>

text \<open>
  A table of the columnar table library, as far as the program reads it:
  \<open>t.colnames()\<close>, \<open>t.coldesc()\<close> (per column, the value of its \<open>'shape'\<close> key,
  \<open>None\<close> when the description has no such key) and \<open>t.getcol(c)\<close>.
\<close>

record ms_table =
  tb_colnames :: "string list"
  tb_coldesc :: "(string \<times> nat list option) list"
  tb_cols :: "(string \<times> column) list"

definition wf_table :: "ms_table \<Rightarrow> bool" where
  "wf_table t = list_all (\<lambda>(k, a). wf_column a) (tb_cols t)"

definition getcol :: "ms_table \<Rightarrow> string \<Rightarrow> exn + column" where
  "getcol t c = (case map_of (tb_cols t) c of None \<Rightarrow> Inl RuntimeError | Some a \<Rightarrow> Inr a)"

text \<open>
  The environment: directories (\<open>os.listdir\<close>, \<open>os.path.isdir\<close>,
  \<open>os.path.exists\<close>, \<open>os.path.abspath\<close>) and the tables that \<open>table(path)\<close>
  opens.  \<open>fs_listdir\<close> and \<open>fs_table\<close> give \<open>None\<close> where the call raises.
\<close>

record filesystem =
  fs_listdir :: "string \<Rightarrow> string list option"
  fs_isdir :: "string \<Rightarrow> bool"
  fs_exists :: "string \<Rightarrow> bool"
  fs_abspath :: "string \<Rightarrow> string"
  fs_table :: "string \<Rightarrow> ms_table option"

definition open_table :: "filesystem \<Rightarrow> string \<Rightarrow> exn + ms_table" where
  "open_table fs path = (case fs_table fs path of None \<Rightarrow> Inl RuntimeError | Some t \<Rightarrow> Inr t)"

section \<open>The functions of plot\_gui.py\<close>

definition VIS_COLUMNS :: "string list" where
  "VIS_COLUMNS = [''DATA'', ''CORRECTED_DATA'', ''MODEL_DATA'', ''RESIDUAL_DATA'']"

subsection \<open>list\_possible\_ms\_dirs\<close>

definition looks_like_ms :: "filesystem \<Rightarrow> string \<Rightarrow> bool" where
  "looks_like_ms fs fpath = (fs_isdir fs fpath \<and> fs_exists fs (path_join fpath ''TABLES''))"

fun candidates_loop :: "filesystem \<Rightarrow> string \<Rightarrow> string list \<Rightarrow> string list \<Rightarrow> string list" where
  "candidates_loop fs path [] candidates = candidates"
| "candidates_loop fs path (f # fs') candidates =
     (let fpath = path_join path f in
      if fs_isdir fs fpath \<and> fs_exists fs (path_join fpath ''TABLES'')
      then candidates_loop fs path fs' (candidates @ [f])
      else candidates_loop fs path fs' candidates)"

definition list_possible_ms_dirs :: "filesystem \<Rightarrow> string \<Rightarrow> exn + string list" where
  "list_possible_ms_dirs fs path =
     (case fs_listdir fs path of
        None \<Rightarrow> Inl OSError
      | Some entries \<Rightarrow> Inr (candidates_loop fs path entries []))"

subsection \<open>load\_ms\_columns\<close>

record colinfo =
  ci_shape :: "nat list"
  n_corr :: nat
  n_chan :: nat

fun vis_colinfo_loop ::
  "string list \<Rightarrow> (string \<times> nat list option) list \<Rightarrow> string list \<Rightarrow>
   (string \<times> colinfo) list \<Rightarrow> exn + (string \<times> colinfo) list" where
  "vis_colinfo_loop colnames desc [] vis_colinfo = Inr vis_colinfo"
| "vis_colinfo_loop colnames desc (c # cs) vis_colinfo =
     (if c \<in> set colnames then
        (case map_of desc c of
           None \<Rightarrow> Inl KeyError
         | Some d \<Rightarrow>
             (let shp = (case d of None \<Rightarrow> [] | Some s \<Rightarrow> s);
                  ncorr = (if length shp \<ge> 1 then shp ! (length shp - 1) else 1);
                  nchan = (if length shp \<ge> 2 then shp ! (length shp - 2) else 1)
              in vis_colinfo_loop colnames desc cs
                   (AList.update c \<lparr>ci_shape = shp, n_corr = ncorr, n_chan = nchan\<rparr> vis_colinfo)))
      else vis_colinfo_loop colnames desc cs vis_colinfo)"

definition load_ms_columns ::
  "filesystem \<Rightarrow> string \<Rightarrow> exn + (string list \<times> (string \<times> colinfo) list)" where
  "load_ms_columns fs ms_path =
     (case open_table fs ms_path of
        Inl e \<Rightarrow> Inl e
      | Inr t \<Rightarrow>
          (let colnames = tb_colnames t; desc = tb_coldesc t in
           case vis_colinfo_loop colnames desc VIS_COLUMNS [] of
             Inl e \<Rightarrow> Inl e
           | Inr vis_colinfo \<Rightarrow> Inr (colnames, vis_colinfo)))"

subsection \<open>load\_ms\_data\<close>

text \<open>
  What the first loop stores for one column: the column read, a visibility column cut
  to one correlation when it is three-dimensional and an index is given, then flattened
  (any other column only when it has more than one dimension).
\<close>

definition flat_data :: "ms_table \<Rightarrow> int option \<Rightarrow> string \<Rightarrow> exn + column" where
  "flat_data t corr_idx c =
     (if c \<in> set VIS_COLUMNS then
        (case getcol t c of
           Inl e \<Rightarrow> Inl e
         | Inr data \<Rightarrow>
             (case corr_idx of
                Some k \<Rightarrow>
                  if col_ndim data = 3
                  then (case col_slice_last data k of
                          Inl e \<Rightarrow> Inl e
                        | Inr data' \<Rightarrow> Inr (col_flatten data'))
                  else Inr (col_flatten data)
              | None \<Rightarrow> Inr (col_flatten data)))
      else
        (case getcol t c of
           Inl e \<Rightarrow> Inl e
         | Inr data \<Rightarrow> Inr (if col_ndim data > 1 then col_flatten data else data)))"

fun load_loop ::
  "ms_table \<Rightarrow> int option \<Rightarrow> string list \<Rightarrow> (string \<times> column) list \<Rightarrow>
   exn + (string \<times> column) list" where
  "load_loop t corr_idx [] arrs = Inr arrs"
| "load_loop t corr_idx (c # cs) arrs =
     (case flat_data t corr_idx c of
        Inl e \<Rightarrow> Inl e
      | Inr a \<Rightarrow> load_loop t corr_idx cs (AList.update c a arrs))"

text \<open>The flag column read, cut to one correlation like the data, flattened.\<close>

definition flat_flags :: "ms_table \<Rightarrow> int option \<Rightarrow> string \<Rightarrow> exn + column" where
  "flat_flags t corr_idx flag_col =
     (case getcol t flag_col of
        Inl e \<Rightarrow> Inl e
      | Inr flags \<Rightarrow>
          (case corr_idx of
             Some k \<Rightarrow>
               if col_ndim flags = 3
               then (case col_slice_last flags k of
                       Inl e \<Rightarrow> Inl e
                     | Inr flags' \<Rightarrow> Inr (col_flatten flags'))
               else Inr (col_flatten flags)
           | None \<Rightarrow> Inr (col_flatten flags)))"

text \<open>\<open>for k in arrs.keys(): arrs[k] = arrs[k][mask]\<close>\<close>

fun mask_loop :: "column \<Rightarrow> (string \<times> column) list \<Rightarrow> exn + (string \<times> column) list" where
  "mask_loop msk [] = Inr []"
| "mask_loop msk ((k, a) # rest) =
     (case col_index a msk of
        Inl e \<Rightarrow> Inl e
      | Inr a' \<Rightarrow> (case mask_loop msk rest of Inl e \<Rightarrow> Inl e | Inr rest' \<Rightarrow> Inr ((k, a') # rest')))"

text \<open>
  \<open>pd.DataFrame(arrs)\<close> for a dictionary of arrays: the arrays become the columns;
  they must be of one length, otherwise ValueError.  The arrays of \<open>load_ms_data\<close>
  are one-dimensional, since every column of a table has the row axis.
\<close>

type_synonym dataframe = "(string \<times> column) list"

definition pd_DataFrame :: "(string \<times> column) list \<Rightarrow> exn + dataframe" where
  "pd_DataFrame arrs =
     (if list_all (\<lambda>(k, a). col_ndim a = 1) arrs \<and>
         list_all (\<lambda>(k, a). col_size a = col_size (snd (hd arrs))) arrs
      then Inr arrs else Inl ValueError)"

text \<open>\<open>len(df)\<close> and \<open>df.empty\<close>: a frame is empty when it has no column or no row.\<close>

definition df_len :: "dataframe \<Rightarrow> nat" where
  "df_len df = (case df of [] \<Rightarrow> 0 | (k, a) # _ \<Rightarrow> col_size a)"

definition df_empty :: "dataframe \<Rightarrow> bool" where
  "df_empty df = (df = [] \<or> df_len df = 0)"

definition load_ms_data ::
  "filesystem \<Rightarrow> string \<Rightarrow> string list \<Rightarrow> int option \<Rightarrow> string option \<Rightarrow> exn + dataframe" where
  "load_ms_data fs ms_path usecols corr_idx flag_col =
     (case open_table fs ms_path of
        Inl e \<Rightarrow> Inl e
      | Inr t \<Rightarrow>
          (case load_loop t corr_idx usecols [] of
             Inl e \<Rightarrow> Inl e
           | Inr arrs \<Rightarrow>
               (case flag_col of
                  None \<Rightarrow> pd_DataFrame arrs
                | Some fc \<Rightarrow>
                    if fc \<noteq> [] \<and> fc \<in> set (tb_colnames t) then
                      (case flat_flags t corr_idx fc of
                         Inl e \<Rightarrow> Inl e
                       | Inr flags \<Rightarrow>
                           (case col_invert flags of
                              Inl e \<Rightarrow> Inl e
                            | Inr msk \<Rightarrow>
                                (case mask_loop msk arrs of
                                   Inl e \<Rightarrow> Inl e
                                 | Inr arrs' \<Rightarrow> pd_DataFrame arrs')))
                    else pd_DataFrame arrs)))"

subsection \<open>get\_corr\_labels\<close>

definition CORR_MAP :: "(int \<times> string) list" where
  "CORR_MAP = [(5, ''RR''), (6, ''RL''), (7, ''LR''), (8, ''LL''),
               (9, ''XX''), (10, ''XY''), (11, ''YX''), (12, ''YY'')]"

text \<open>\<open>CORR_MAP.get(c, str(c))\<close> for an integer code.\<close>

definition corr_name :: "int \<Rightarrow> string" where
  "corr_name c = (case map_of CORR_MAP c of Some l \<Rightarrow> l | None \<Rightarrow> str_int c)"

text \<open>
  The same for one element of the array read: a boolean is the key 0 or 1 and prints
  as \<open>True\<close> or \<open>False\<close>; a floating-point value is the key of the integer it equals.
\<close>

fun cell_corr_name :: "cell \<Rightarrow> string" where
  "cell_corr_name (IntV c) = corr_name c"
| "cell_corr_name (BoolV b) =
     (case map_of CORR_MAP (if b then 1 else 0) of
        Some l \<Rightarrow> l | None \<Rightarrow> (if b then ''True'' else ''False''))"
| "cell_corr_name (NumV s) =
     (case as_int s of
        None \<Rightarrow> repr s
      | Some c \<Rightarrow> (case map_of CORR_MAP c of Some l \<Rightarrow> l | None \<Rightarrow> repr s))"

text \<open>
  The body of the \<open>try\<close>: open the POLARIZATION subtable, read CORR\_TYPE, take its
  first row and name each code.  \<open>first_row\<close> is \<open>a[0]\<close> as the comprehension
  iterates over it: the codes of the first row of a two-dimensional array.  The index
  raises IndexError when there is no first row; iterating over a scalar (the first
  element of a one-dimensional array) and looking up a sub-array (an element of the
  first row of an array of more dimensions) raise TypeError.
\<close>

definition first_row :: "column \<Rightarrow> exn + cell list" where
  "first_row a =
     (case col_shape a of
        [] \<Rightarrow> Inl IndexError
      | [n] \<Rightarrow> if n = 0 then Inl IndexError else Inl TypeError
      | r # n # rest \<Rightarrow>
          if r = 0 then Inl IndexError
          else if rest = [] then Inr (take n (col_cells a))
          else if n = 0 then Inr []
          else Inl TypeError)"

definition read_corr_names :: "filesystem \<Rightarrow> string \<Rightarrow> exn + string list" where
  "read_corr_names fs pol_path =
     (case open_table fs pol_path of
        Inl e \<Rightarrow> Inl e
      | Inr t \<Rightarrow>
          (case getcol t ''CORR_TYPE'' of
             Inl e \<Rightarrow> Inl e
           | Inr a \<Rightarrow>
               (case first_row a of
                  Inl e \<Rightarrow> Inl e
                | Inr corr_types \<Rightarrow> Inr (map cell_corr_name corr_types))))"

definition get_corr_labels :: "filesystem \<Rightarrow> string \<Rightarrow> string \<Rightarrow> exn + string list" where
  "get_corr_labels fs ms_path vis_col =
     (let pol_path = path_join ms_path ''POLARIZATION'' in
      case read_corr_names fs pol_path of
        Inr corr_names \<Rightarrow> Inr corr_names
      | Inl _ \<Rightarrow>
          (case load_ms_columns fs ms_path of
             Inl e \<Rightarrow> Inl e
           | Inr (colnames, vis_colinfo) \<Rightarrow>
               (let ncorr = (case map_of vis_colinfo vis_col of None \<Rightarrow> 4 | Some ci \<Rightarrow> n_corr ci)
                in Inr (map str_nat [0..<ncorr]))))"

section \<open>The application (src/scribble/plot\_gui.py)\<close>

text \<open>
  The variables and widgets of \<open>bokeh_app\<close>.  \<open>flag_col_local\<close> is the variable
  \<open>flag_col\<close> of \<open>bokeh_app\<close>, which \<open>run_plot\<close> reads; \<open>flag_col_global\<close> is the
  module-level name that the \<open>global flag_col\<close> statement of \<open>ms_chosen\<close> binds.
  \<open>render_data\<close> is the image source of the figure, \<open>None\<close> while it is empty.
  \<open>written_files\<close> lists what \<open>export_png\<close> wrote: the file name and the figure
  (its title and its image) at that moment.
\<close>

record 'img app_state =
  selected_ms :: "string option"
  ms_select_options :: "string list"
  ms_select_value :: "string option"
  axis_opts :: "string list"
  vis_colinfo :: "(string \<times> colinfo) list"
  flag_col_local :: "string option"
  flag_col_global :: "string option"
  select_x_options :: "string list"
  select_x_value :: "string option"
  select_y_options :: "string list"
  select_y_value :: "string option"
  select_group_options :: "string list"
  select_group_value :: string
  select_corr_options :: "string list"
  select_corr_value :: "string list"
  select_corr_visible :: bool
  plot_button_disabled :: bool
  export_button_disabled :: bool
  status_text :: string
  outfig_title :: string
  render_data :: "'img option"
  written_files :: "(string \<times> string \<times> 'img option) list"

text \<open>
  A callback returns the state it leaves and the exception that ended it, if any: the
  assignments made before a raise stay.  \<open>and_then\<close> runs the rest of a callback
  when the first part did not raise.
\<close>

definition and_then :: "exn option \<times> 's \<Rightarrow> ('s \<Rightarrow> exn option \<times> 's) \<Rightarrow> exn option \<times> 's" where
  "and_then r f = (case r of (None, s) \<Rightarrow> f s | (Some e, s) \<Rightarrow> (Some e, s))"

text \<open>\<open>value in vis_colinfo\<close> for the value of a selector, which may be \<open>None\<close>.\<close>

definition in_vis_colinfo :: "'img app_state \<Rightarrow> string option \<Rightarrow> bool" where
  "in_vis_colinfo s v =
     (case v of None \<Rightarrow> False | Some c \<Rightarrow> map_of (vis_colinfo s) c \<noteq> None)"

text \<open>
  The branch \<open>if any_vis\<close> of \<open>update_corr_visibility\<close>: the labels of the picked
  visibility column become the options, and the selection is reset to the first label
  when it is empty or holds a label that is not offered.
\<close>

definition show_corr_labels ::
  "filesystem \<Rightarrow> string option \<Rightarrow> 'img app_state \<Rightarrow> exn option \<times> 'img app_state" where
  "show_corr_labels fs viscol s1 =
     (case (selected_ms s1, viscol) of
        (Some p, Some v) \<Rightarrow>
          (case get_corr_labels fs p v of
             Inl e \<Rightarrow> (Some e, s1)
           | Inr corr_labels \<Rightarrow>
               (let s2 = s1\<lparr>select_corr_options := corr_labels\<rparr> in
                if select_corr_value s2 = [] \<or>
                   set (select_corr_value s2) - set corr_labels \<noteq> {}
                then (case corr_labels of
                        [] \<Rightarrow> (Some IndexError, s2)
                      | l # _ \<Rightarrow> (None, s2\<lparr>select_corr_value := [l]\<rparr>))
                else (None, s2)))
      | _ \<Rightarrow> (Some TypeError, s1))"

definition update_corr_visibility ::
  "filesystem \<Rightarrow> 'img app_state \<Rightarrow> exn option \<times> 'img app_state" where
  "update_corr_visibility fs s =
     (let inx = in_vis_colinfo s (select_x_value s);
          iny = in_vis_colinfo s (select_y_value s);
          any_vis = (inx \<or> iny);
          s1 = s\<lparr>select_corr_visible := any_vis\<rparr>
      in if any_vis then
           show_corr_labels fs (if inx then select_x_value s else select_y_value s) s1
         else (None, s1\<lparr>select_corr_options := [], select_corr_value := []\<rparr>))"

text \<open>
  \<open>select_x.on_change("value", ...)\<close> and \<open>select_y.on_change("value", ...)\<close>:
  a change of the value of either selector runs \<open>update_corr_visibility\<close>, also when
  \<open>ms_chosen\<close> makes the change.
\<close>

definition assign_select_x ::
  "filesystem \<Rightarrow> string option \<Rightarrow> 'img app_state \<Rightarrow> exn option \<times> 'img app_state" where
  "assign_select_x fs v s =
     (if select_x_value s = v then (None, s)
      else update_corr_visibility fs (s\<lparr>select_x_value := v\<rparr>))"

definition assign_select_y ::
  "filesystem \<Rightarrow> string option \<Rightarrow> 'img app_state \<Rightarrow> exn option \<times> 'img app_state" where
  "assign_select_y fs v s =
     (if select_y_value s = v then (None, s)
      else update_corr_visibility fs (s\<lparr>select_y_value := v\<rparr>))"

definition ms_chosen :: "filesystem \<Rightarrow> 'img app_state \<Rightarrow> exn option \<times> 'img app_state" where
  "ms_chosen fs s =
     (case ms_select_value s of
        None \<Rightarrow> (None, s)
      | Some v \<Rightarrow>
          if v = [] then (None, s)
          else
            (let ms_path = fs_abspath fs v;
                 s1 = s\<lparr>selected_ms := Some ms_path\<rparr>
             in case load_ms_columns fs ms_path of
                  Inl e \<Rightarrow> (Some e, s1)
                | Inr (colnames, visinfo) \<Rightarrow>
                    (let opts = filter (\<lambda>c. c \<noteq> ''FLAG'') colnames;
                         s2 = s1\<lparr>axis_opts := opts, vis_colinfo := visinfo,
                                 select_x_options := opts\<rparr>
                     in if length opts < 1 then (Some IndexError, s2)
                        else
                          and_then (assign_select_x fs (Some (opts ! 0)) s2)
                            (\<lambda>s3.
                               if length opts < 2
                               then (Some IndexError, s3\<lparr>select_y_options := opts\<rparr>)
                               else
                                 and_then
                                   (assign_select_y fs (Some (opts ! 1))
                                      (s3\<lparr>select_y_options := opts\<rparr>))
                                   (\<lambda>s5.
                                      and_then
                                        (update_corr_visibility fs
                                           (s5\<lparr>select_group_options := ''None'' # opts,
                                                select_group_value := ''None''\<rparr>))
                                        (\<lambda>s6.
                                           (None,
                                            s6\<lparr>plot_button_disabled := False,
                                                export_button_disabled := False,
                                                flag_col_global :=
                                                  (if ''FLAG'' \<in> set colnames
                                                   then Some ''FLAG'' else None)\<rparr>)))))))"

definition assign_ms_select ::
  "filesystem \<Rightarrow> string option \<Rightarrow> 'img app_state \<Rightarrow> exn option \<times> 'img app_state" where
  "assign_ms_select fs v s =
     (if ms_select_value s = v then (None, s)
      else ms_chosen fs (s\<lparr>ms_select_value := v\<rparr>))"

definition update_ms_list :: "filesystem \<Rightarrow> 'img app_state \<Rightarrow> exn option \<times> 'img app_state" where
  "update_ms_list fs s =
     (case list_possible_ms_dirs fs ''.'' of
        Inl e \<Rightarrow> (Some e, s)
      | Inr dirs \<Rightarrow>
          and_then (assign_ms_select fs None (s\<lparr>ms_select_options := dirs\<rparr>)) (\<lambda>s1.
            (None,
             s1\<lparr>axis_opts := [], vis_colinfo := [],
                select_x_options := [], select_y_options := [],
                select_group_options := [''None''], select_corr_options := [],
                plot_button_disabled := True, export_button_disabled := True,
                status_text := [], outfig_title := ''Scribble Plot'',
                render_data := None\<rparr>)))"

text \<open>\<open>list.index\<close>: the first position of an element, ValueError when absent.\<close>

fun list_index :: "'a list \<Rightarrow> 'a \<Rightarrow> exn + nat" where
  "list_index [] x = Inl ValueError"
| "list_index (y # ys) x =
     (if y = x then Inr 0
      else (case list_index ys x of Inl e \<Rightarrow> Inl e | Inr i \<Rightarrow> Inr (Suc i)))"

text \<open>
  \<open>corr_idx\<close> as \<open>run_plot\<close> computes it from \<open>usecorr\<close> (the selection when
  the correlation selector is visible) and the labels offered: \<open>None\<close> unless the
  selection is non-empty, else the position of \<open>usecorr[0]\<close> among the labels.
\<close>

definition corr_idx_of :: "string list option \<Rightarrow> string list \<Rightarrow> exn + int option" where
  "corr_idx_of usecorr corr_labels =
     (case usecorr of
        None \<Rightarrow> Inr None
      | Some [] \<Rightarrow> Inr None
      | Some (c # _) \<Rightarrow>
          (case list_index corr_labels c of
             Inl e \<Rightarrow> Inl e
           | Inr i \<Rightarrow> Inr (Some (int i))))"

text \<open>\<open>set.add\<close> on the columns to load, kept as a list without repetition.\<close>

definition set_add :: "'a \<Rightarrow> 'a list \<Rightarrow> 'a list" where
  "set_add x xs = (if x \<in> set xs then xs else xs @ [x])"

definition plot_usecols ::
  "string \<Rightarrow> string \<Rightarrow> string option \<Rightarrow> string option \<Rightarrow> string list \<Rightarrow> string list" where
  "plot_usecols xcol ycol groupcol flagcol vis =
     (let u0 = set_add ycol (set_add xcol []);
          u1 = (case groupcol of None \<Rightarrow> u0 | Some g \<Rightarrow> if g \<noteq> [] then set_add g u0 else u0);
          u2 = (case flagcol of None \<Rightarrow> u1 | Some f \<Rightarrow> if f \<noteq> [] then set_add f u1 else u1)
      in fold (\<lambda>v u. if xcol = v \<or> ycol = v then set_add v u else u) vis u2)"

definition plot_title :: "string \<Rightarrow> string \<Rightarrow> string list option \<Rightarrow> string" where
  "plot_title xcol ycol usecorr =
     xcol @ '' vs '' @ ycol @
     (case usecorr of
        None \<Rightarrow> []
      | Some [] \<Rightarrow> []
      | Some (c # _) \<Rightarrow> '' ('' @ c @ '')'')"

text \<open>
  \<open>run_plot\<close>, in three parts; \<open>usecorr\<close> is the selection of correlations
  when the correlation selector is visible, \<open>None\<close> otherwise.  The rasterizer and the image conversion belong to
  external libraries: \<open>rasterize df xcol ycol\<close> stands for the image data computed
  from the frame (the shaded aggregate and the extents of the two columns), or the
  exception the libraries raise.
\<close>

text \<open>From \<open>if df.empty\<close> to the end: the frame is rendered unless it is empty.\<close>

definition render_frame ::
  "(dataframe \<Rightarrow> string \<Rightarrow> string \<Rightarrow> exn + 'img) \<Rightarrow> string \<Rightarrow> string \<Rightarrow>
   string list option \<Rightarrow> dataframe \<Rightarrow> 'img app_state \<Rightarrow> exn option \<times> 'img app_state" where
  "render_frame rasterize xcol ycol usecorr df s =
     (if df_empty df
      then (None, s\<lparr>status_text := ''No data to plot (possible all flagged/filtered?)''\<rparr>)
      else
        (case rasterize df xcol ycol of
           Inl e \<Rightarrow> (Some e, s)
         | Inr img \<Rightarrow>
             (None,
              s\<lparr>render_data := Some img,
                outfig_title := plot_title xcol ycol usecorr,
                status_text := ''Plotted '' @ str_nat (df_len df) @ '' points.''\<rparr>)))"

text \<open>
  From \<open>xcol, ycol = ...\<close> to the call of \<open>load_ms_data\<close>.  A selector whose value
  is still \<open>None\<close> makes \<open>getcol\<close> raise TypeError.
\<close>

definition load_selection ::
  "(dataframe \<Rightarrow> string \<Rightarrow> string \<Rightarrow> exn + 'img) \<Rightarrow> filesystem \<Rightarrow> string \<Rightarrow>
   string list option \<Rightarrow> 'img app_state \<Rightarrow> exn option \<times> 'img app_state" where
  "load_selection rasterize fs ms_path usecorr s =
     (let groupcol = (if select_group_value s \<noteq> ''None''
                      then Some (select_group_value s) else None)
      in case corr_idx_of usecorr (select_corr_options s) of
           Inl e \<Rightarrow> (Some e, s)
         | Inr corr_idx \<Rightarrow>
             (case (select_x_value s, select_y_value s) of
                (Some xcol, Some ycol) \<Rightarrow>
                  (case load_ms_data fs ms_path
                          (plot_usecols xcol ycol groupcol (flag_col_local s) VIS_COLUMNS)
                          corr_idx (flag_col_local s) of
                     Inl e \<Rightarrow> (Some e, s)
                   | Inr df \<Rightarrow> render_frame rasterize xcol ycol usecorr df s)
              | _ \<Rightarrow> (Some TypeError, s)))"

definition run_plot ::
  "(dataframe \<Rightarrow> string \<Rightarrow> string \<Rightarrow> exn + 'img) \<Rightarrow> filesystem \<Rightarrow>
   'img app_state \<Rightarrow> exn option \<times> 'img app_state" where
  "run_plot rasterize fs s =
     (case selected_ms s of
        None \<Rightarrow> (None, s\<lparr>status_text := ''No Measurement Set selected!''\<rparr>)
      | Some ms_path \<Rightarrow>
          if ms_path = [] then (None, s\<lparr>status_text := ''No Measurement Set selected!''\<rparr>)
          else load_selection rasterize fs ms_path
                 (if select_corr_visible s then Some (select_corr_value s) else None) s)"

definition export_png :: "'img app_state \<Rightarrow> exn option \<times> 'img app_state" where
  "export_png s =
     (None,
      s\<lparr>written_files :=
          written_files s @ [(''scribble_export.png'', outfig_title s, render_data s)],
        status_text := ''Plot exported to scribble_export.png''\<rparr>)"

text \<open>
  \<open>bokeh_app\<close>: the widgets as created, then the first \<open>update_ms_list()\<close>.
\<close>

definition initial_state :: "'img app_state" where
  "initial_state =
     \<lparr>selected_ms = None, ms_select_options = [], ms_select_value = None,
      axis_opts = [], vis_colinfo = [], flag_col_local = None, flag_col_global = None,
      select_x_options = [], select_x_value = None,
      select_y_options = [], select_y_value = None,
      select_group_options = [''None''], select_group_value = ''None'',
      select_corr_options = [], select_corr_value = [], select_corr_visible = False,
      plot_button_disabled = True, export_button_disabled = True,
      status_text = [], outfig_title = ''Scribble Plot'',
      render_data = None, written_files = []\<rparr>"

definition bokeh_app :: "filesystem \<Rightarrow> exn option \<times> 'img app_state" where
  "bokeh_app fs =
     (case list_possible_ms_dirs fs ''.'' of
        Inl e \<Rightarrow> (Some e, initial_state)
      | Inr dirs \<Rightarrow> update_ms_list fs (initial_state\<lparr>ms_select_options := dirs\<rparr>))"

text \<open>
  \<open>plot_gui\<close>: the server serves \<open>app_wrapper\<close>, which builds the document of each
  session.  The dictionary \<open>selected_ms\<close> that \<open>app_wrapper\<close> creates for a given
  path is a local of \<open>app_wrapper\<close>.
\<close>

definition app_wrapper :: "filesystem \<Rightarrow> string option \<Rightarrow> exn option \<times> 'img app_state" where
  "app_wrapper fs ms_path =
     (case ms_path of
        None \<Rightarrow> bokeh_app fs
      | Some p \<Rightarrow>
          if p \<noteq> [] then (let selected_ms_local = [(''path'', p)] in bokeh_app fs)
          else bokeh_app fs)"

definition plot_gui :: "filesystem \<Rightarrow> string option \<Rightarrow> exn option \<times> 'img app_state" where
  "plot_gui fs ms_path = app_wrapper fs ms_path"

text \<open>
  The events of a session and the callbacks wired to them.  An exception in a callback
  is logged by the server; the session goes on from the state the callback left.
\<close>

datatype event =
    ClickReload
  | ChooseMs "string option"
  | ChooseX "string option"
  | ChooseY "string option"
  | ChooseGroup string
  | ChooseCorr "string list"
  | ClickPlot
  | ClickExport

definition handle ::
  "(dataframe \<Rightarrow> string \<Rightarrow> string \<Rightarrow> exn + 'img) \<Rightarrow> filesystem \<Rightarrow> event \<Rightarrow>
   'img app_state \<Rightarrow> exn option \<times> 'img app_state" where
  "handle rasterize fs ev s =
     (case ev of
        ClickReload \<Rightarrow> update_ms_list fs s
      | ChooseMs v \<Rightarrow> assign_ms_select fs v s
      | ChooseX v \<Rightarrow> assign_select_x fs v s
      | ChooseY v \<Rightarrow> assign_select_y fs v s
      | ChooseGroup g \<Rightarrow> (None, s\<lparr>select_group_value := g\<rparr>)
      | ChooseCorr cs \<Rightarrow> (None, s\<lparr>select_corr_value := cs\<rparr>)
      | ClickPlot \<Rightarrow> run_plot rasterize fs s
      | ClickExport \<Rightarrow> export_png s)"

fun run_events ::
  "(dataframe \<Rightarrow> string \<Rightarrow> string \<Rightarrow> exn + 'img) \<Rightarrow> filesystem \<Rightarrow> event list \<Rightarrow>
   'img app_state \<Rightarrow> 'img app_state" where
  "run_events rasterize fs [] s = s"
| "run_events rasterize fs (ev # evs) s = run_events rasterize fs evs (snd (handle rasterize fs ev s))"

text \<open>
  The place of the interface columns in a session, as a property of its state: FLAG is
  not among the columns offered for the axes or the grouping, the flag column, where one
  is noted, is FLAG, and the columns with correlation information are among
  \<open>VIS_COLUMNS\<close>.
\<close>

definition flag_discipline :: "'img app_state \<Rightarrow> bool" where
  "flag_discipline s =
     (''FLAG'' \<notin> set (axis_opts s) \<and> ''FLAG'' \<notin> set (select_x_options s) \<and>
      ''FLAG'' \<notin> set (select_y_options s) \<and> ''FLAG'' \<notin> set (select_group_options s) \<and>
      (flag_col_local s = None \<or> flag_col_local s = Some ''FLAG'') \<and>
      (flag_col_global s = None \<or> flag_col_global s = Some ''FLAG'') \<and>
      fst ` set (vis_colinfo s) \<subseteq> set VIS_COLUMNS)"

text \<open>The same, with the value of the variable \<open>flag_col\<close> of \<open>bokeh_app\<close>.\<close>

definition flag_state :: "string option \<Rightarrow> 'img app_state \<Rightarrow> bool" where
  "flag_state fc s = (flag_discipline s \<and> flag_col_local s = fc)"

section \<open>The application as built (src/build/lib/scribble/plot\_gui.py)\<close>

text \<open>
  The built copy of the module has the same \<open>load_ms_columns\<close>, \<open>load_ms_data\<close> and
  \<open>get_corr_labels\<close>.  Its page holds a text input for the path, a Load button and a
  status line; \<open>on_load\<close> creates the plot controls, whose callbacks close over the
  path and the columns found.
\<close>

record 'img controls =
  ctl_path :: string
  ctl_axis_opts :: "string list"
  ctl_flag_col :: "string option"
  vis_columns_avail :: "string list"
  ctl_select_x_value :: string
  ctl_select_y_value :: string
  ctl_select_group_value :: string
  ctl_select_corr_options :: "string list"
  ctl_select_corr_value :: "string list"
  ctl_select_corr_visible :: bool
  ctl_export_button_disabled :: bool
  plot_status :: string
  ctl_outfig_title :: string
  ctl_render_data :: "'img option"
  ctl_written_files :: "(string \<times> string \<times> 'img option) list"

record 'img page_state =
  ms_path_input :: string
  page_status :: string
  plot_layout_children :: "'img controls list"

definition build_show_corr_labels ::
  "filesystem \<Rightarrow> string \<Rightarrow> 'img controls \<Rightarrow> exn option \<times> 'img controls" where
  "build_show_corr_labels fs viscol c1 =
     (case get_corr_labels fs (ctl_path c1) viscol of
        Inl e \<Rightarrow> (Some e, c1)
      | Inr corr_labels \<Rightarrow>
          (let c2 = c1\<lparr>ctl_select_corr_options := corr_labels\<rparr> in
           if ctl_select_corr_value c2 = [] \<or>
              set (ctl_select_corr_value c2) - set corr_labels \<noteq> {}
           then (case corr_labels of
                   [] \<Rightarrow> (Some IndexError, c2)
                 | l # _ \<Rightarrow> (None, c2\<lparr>ctl_select_corr_value := [l]\<rparr>))
           else (None, c2)))"

definition build_update_corr_visibility ::
  "filesystem \<Rightarrow> 'img controls \<Rightarrow> exn option \<times> 'img controls" where
  "build_update_corr_visibility fs c =
     (let xval = ctl_select_x_value c; yval = ctl_select_y_value c;
          inx = (xval \<in> set (vis_columns_avail c));
          iny = (yval \<in> set (vis_columns_avail c));
          any_vis = (inx \<or> iny);
          c1 = c\<lparr>ctl_select_corr_visible := any_vis\<rparr>
      in if any_vis then build_show_corr_labels fs (if inx then xval else yval) c1
         else (None, c1\<lparr>ctl_select_corr_options := [], ctl_select_corr_value := []\<rparr>))"

definition invalid_path_message :: string where
  "invalid_path_message = ''<span style='color:red;'>Not a valid MS directory path!</span>''"

definition loaded_message :: "string \<Rightarrow> string" where
  "loaded_message p = ''<b style='color:green;'>Loaded: '' @ p @ ''</b>''"

definition on_load :: "filesystem \<Rightarrow> 'img page_state \<Rightarrow> exn option \<times> 'img page_state" where
  "on_load fs s =
     (let path = strip (ms_path_input s) in
      if path = [] \<or> \<not> fs_isdir fs path \<or> \<not> fs_exists fs (path_join path ''TABLES'')
      then (None, s\<lparr>page_status := invalid_path_message, plot_layout_children := []\<rparr>)
      else
        (let s1 = s\<lparr>page_status := loaded_message (fs_abspath fs path)\<rparr> in
         case load_ms_columns fs path of
           Inl e \<Rightarrow> (Some e, s1)
         | Inr (colnames, visinfo) \<Rightarrow>
             (let opts = filter (\<lambda>c. c \<noteq> ''FLAG'') colnames;
                  flagcol = (if ''FLAG'' \<in> set colnames then Some ''FLAG'' else None);
                  avail = filter (\<lambda>c. c \<in> set colnames) VIS_COLUMNS
              in if length opts < 2 then (Some IndexError, s1)
                 else
                   (case build_update_corr_visibility fs
                           \<lparr>ctl_path = path, ctl_axis_opts = opts, ctl_flag_col = flagcol,
                            vis_columns_avail = avail,
                            ctl_select_x_value = opts ! 0, ctl_select_y_value = opts ! 1,
                            ctl_select_group_value = ''None'',
                            ctl_select_corr_options = [], ctl_select_corr_value = [],
                            ctl_select_corr_visible = False,
                            ctl_export_button_disabled = True,
                            plot_status = [], ctl_outfig_title = ''Scribble Plot'',
                            ctl_render_data = None, ctl_written_files = []\<rparr> of
                      (Some e, c) \<Rightarrow> (Some e, s1)
                    | (None, c) \<Rightarrow> (None, s1\<lparr>plot_layout_children := [c]\<rparr>)))))"

text \<open>
  \<open>run_plot\<close> of the built copy, in two parts.  \<open>str_exn\<close> stands for the text of
  an exception, which the libraries choose.
\<close>

definition build_render_frame ::
  "(dataframe \<Rightarrow> string \<Rightarrow> string \<Rightarrow> exn + 'img) \<Rightarrow> string \<Rightarrow> string \<Rightarrow>
   string list option \<Rightarrow> dataframe \<Rightarrow> 'img controls \<Rightarrow> exn option \<times> 'img controls" where
  "build_render_frame rasterize xcol ycol usecorr df c =
     (if df_empty df
      then (None, c\<lparr>plot_status :=
              ''<span style='color:red;'>No data to plot (all flagged?)</span>''\<rparr>)
      else
        (case rasterize df xcol ycol of
           Inl e \<Rightarrow> (Some e, c)
         | Inr img \<Rightarrow>
             (None,
              c\<lparr>ctl_render_data := Some img,
                ctl_outfig_title := plot_title xcol ycol usecorr,
                plot_status := ''Plotted '' @ str_nat (df_len df) @ '' points.'',
                ctl_export_button_disabled := False\<rparr>)))"

definition build_load_selection ::
  "(dataframe \<Rightarrow> string \<Rightarrow> string \<Rightarrow> exn + 'img) \<Rightarrow> (exn \<Rightarrow> string) \<Rightarrow> filesystem \<Rightarrow>
   string list option \<Rightarrow> 'img controls \<Rightarrow> exn option \<times> 'img controls" where
  "build_load_selection rasterize str_exn fs usecorr c =
     (let xcol = ctl_select_x_value c; ycol = ctl_select_y_value c;
          groupcol = (if ctl_select_group_value c \<noteq> ''None''
                      then Some (ctl_select_group_value c) else None)
      in case corr_idx_of usecorr (ctl_select_corr_options c) of
           Inl e \<Rightarrow> (Some e, c)
         | Inr corr_idx \<Rightarrow>
             (case load_ms_data fs (ctl_path c)
                     (plot_usecols xcol ycol groupcol (ctl_flag_col c) (vis_columns_avail c))
                     corr_idx (ctl_flag_col c) of
                Inl e \<Rightarrow>
                  (None, c\<lparr>plot_status :=
                     ''<span style='color:red;'>Error loading MS data: '' @ str_exn e @ ''</span>''\<rparr>)
              | Inr df \<Rightarrow> build_render_frame rasterize xcol ycol usecorr df c))"

definition build_run_plot ::
  "(dataframe \<Rightarrow> string \<Rightarrow> string \<Rightarrow> exn + 'img) \<Rightarrow> (exn \<Rightarrow> string) \<Rightarrow> filesystem \<Rightarrow>
   'img controls \<Rightarrow> exn option \<times> 'img controls" where
  "build_run_plot rasterize str_exn fs c =
     build_load_selection rasterize str_exn fs
       (if ctl_select_corr_visible c then Some (ctl_select_corr_value c) else None) c"



section \<open>A small Measurement Set\<close>

text \<open>
  Two rows, two channels, two correlations (XX and YY): a per-row TIME column, two
  visibility columns and the FLAG column, with the POLARIZATION subtable.  The
  directory \<open>obs.ms\<close> lies in the working directory \<open>/data\<close>, beside a directory
  \<open>notes\<close> and a file \<open>readme.txt\<close>.
\<close>

definition ex_time :: column where
  "ex_time = NumArr (NDArray [2] [Sample ''10.0'' (Some 10), Sample ''20.5'' None])"

definition ex_data :: column where
  "ex_data = NumArr (NDArray [2, 2, 2]
     [Sample ''0.1'' None, Sample ''0.2'' None, Sample ''0.3'' None, Sample ''0.4'' None,
      Sample ''0.5'' None, Sample ''0.6'' None, Sample ''0.7'' None, Sample ''0.8'' None])"

definition ex_corrected :: column where
  "ex_corrected = NumArr (NDArray [2, 2, 2]
     [Sample ''1.1'' None, Sample ''1.2'' None, Sample ''1.3'' None, Sample ''1.4'' None,
      Sample ''1.5'' None, Sample ''1.6'' None, Sample ''1.7'' None, Sample ''1.8'' None])"

definition ex_flag :: column where
  "ex_flag = BoolArr (NDArray [2, 2, 2] [False, False, True, True, False, True, False, False])"

definition ex_table :: ms_table where
  "ex_table =
     \<lparr>tb_colnames = [''TIME'', ''DATA'', ''CORRECTED_DATA'', ''FLAG''],
      tb_coldesc = [(''TIME'', None), (''DATA'', Some [2, 2]),
                    (''CORRECTED_DATA'', Some [2, 2]), (''FLAG'', Some [2, 2])],
      tb_cols = [(''TIME'', ex_time), (''DATA'', ex_data),
                 (''CORRECTED_DATA'', ex_corrected), (''FLAG'', ex_flag)]\<rparr>"

definition ex_pol :: ms_table where
  "ex_pol =
     \<lparr>tb_colnames = [''CORR_TYPE''],
      tb_coldesc = [(''CORR_TYPE'', Some [2])],
      tb_cols = [(''CORR_TYPE'', IntArr (NDArray [1, 2] [9, 12]))]\<rparr>"

definition ex_fs :: filesystem where
  "ex_fs =
     \<lparr>fs_listdir = (\<lambda>p. if p = ''.'' then Some [''obs.ms'', ''notes'', ''readme.txt''] else None),
      fs_isdir = (\<lambda>p. p \<in> set [''.'', ''./obs.ms'', ''./notes'', ''/data/obs.ms'']),
      fs_exists = (\<lambda>p. p \<in> set [''.'', ''./obs.ms'', ''./notes'', ''./readme.txt'',
                                  ''./obs.ms/TABLES'', ''/data/obs.ms'', ''/data/obs.ms/TABLES'']),
      fs_abspath = (\<lambda>p. path_join ''/data'' p),
      fs_table = (\<lambda>p. if p = ''/data/obs.ms'' then Some ex_table
                      else if p = ''/data/obs.ms/POLARIZATION'' then Some ex_pol
                      else None)\<rparr>"


text \<open>The same directory holding a table without rows.\<close>

definition ex_empty_table :: ms_table where
  "ex_empty_table =
     \<lparr>tb_colnames = [''TIME'', ''DATA''],
      tb_coldesc = [(''TIME'', None), (''DATA'', Some [2, 2])],
      tb_cols = [(''TIME'', NumArr (NDArray [0] [])),
                 (''DATA'', NumArr (NDArray [0, 2, 2] []))]\<rparr>"

definition ex_fs_empty :: filesystem where
  "ex_fs_empty =
     ex_fs\<lparr>fs_table := (\<lambda>p. if p = ''/data/obs.ms'' then Some ex_empty_table else None)\<rparr>"

text \<open>
  The same directory holding a table of two spectrum columns (one row, one channel,
  two correlations) whose samples are all flagged.
\<close>

definition ex_flagged_table :: ms_table where
  "ex_flagged_table =
     \<lparr>tb_colnames = [''WEIGHT_SPECTRUM'', ''SIGMA_SPECTRUM'', ''FLAG''],
      tb_coldesc = [(''WEIGHT_SPECTRUM'', Some [1, 2]), (''SIGMA_SPECTRUM'', Some [1, 2]),
                    (''FLAG'', Some [1, 2])],
      tb_cols = [(''WEIGHT_SPECTRUM'',
                    NumArr (NDArray [1, 1, 2] [Sample ''1.0'' (Some 1), Sample ''0.5'' None])),
                 (''SIGMA_SPECTRUM'',
                    NumArr (NDArray [1, 1, 2] [Sample ''2.0'' (Some 2), Sample ''4.0'' (Some 4)])),
                 (''FLAG'', BoolArr (NDArray [1, 1, 2] [True, True]))]\<rparr>"

definition ex_fs_flagged :: filesystem where
  "ex_fs_flagged =
     ex_fs\<lparr>fs_table := (\<lambda>p. if p = ''/data/obs.ms'' then Some ex_flagged_table else None)\<rparr>"

text \<open>A rasterizer that only records what it was given.\<close>

definition ex_rasterize :: "dataframe \<Rightarrow> string \<Rightarrow> string \<Rightarrow> exn + (dataframe \<times> string \<times> string)" where
  "ex_rasterize df xcol ycol = Inr (df, xcol, ycol)"

text \<open>
  The session after \<open>obs.ms\<close> was chosen, CORRECTED\_DATA picked for the X axis and
  DATA for the Y axis.
\<close>

type_synonym eximg = "dataframe \<times> string \<times> string"

definition ex_state :: "eximg app_state" where
  "ex_state =
     \<lparr>selected_ms = Some ''/data/obs.ms'', ms_select_options = [''obs.ms''],
      ms_select_value = Some ''obs.ms'',
      axis_opts = [''TIME'', ''DATA'', ''CORRECTED_DATA''],
      vis_colinfo =
        [(''DATA'', \<lparr>ci_shape = [2, 2], n_corr = 2, n_chan = 2\<rparr>),
         (''CORRECTED_DATA'', \<lparr>ci_shape = [2, 2], n_corr = 2, n_chan = 2\<rparr>)],
      flag_col_local = None, flag_col_global = Some ''FLAG'',
      select_x_options = [''TIME'', ''DATA'', ''CORRECTED_DATA''],
      select_x_value = Some ''CORRECTED_DATA'',
      select_y_options = [''TIME'', ''DATA'', ''CORRECTED_DATA''],
      select_y_value = Some ''DATA'',
      select_group_options = [''None'', ''TIME'', ''DATA'', ''CORRECTED_DATA''],
      select_group_value = ''None'', select_corr_options = [''XX'', ''YY''],
      select_corr_value = [''XX''], select_corr_visible = True,
      plot_button_disabled = False, export_button_disabled = False,
      status_text = [], outfig_title = ''Scribble Plot'', render_data = None,
      written_files = []\<rparr>"

text \<open>The page of the built copy with a path typed in, surrounded by blanks.\<close>

definition ex_page :: "eximg page_state" where
  "ex_page = \<lparr>ms_path_input = '' /data/obs.ms '', page_status = [], plot_layout_children = []\<rparr>"

text \<open>The controls that \<open>on_load\<close> creates for the all-flagged table.\<close>

definition ex_controls_flagged :: "eximg controls" where
  "ex_controls_flagged =
     \<lparr>ctl_path = ''/data/obs.ms'',
      ctl_axis_opts = [''WEIGHT_SPECTRUM'', ''SIGMA_SPECTRUM''],
      ctl_flag_col = Some ''FLAG'', vis_columns_avail = [],
      ctl_select_x_value = ''WEIGHT_SPECTRUM'', ctl_select_y_value = ''SIGMA_SPECTRUM'',
      ctl_select_group_value = ''None'',
      ctl_select_corr_options = [], ctl_select_corr_value = [],
      ctl_select_corr_visible = False, ctl_export_button_disabled = True,
      plot_status = [], ctl_outfig_title = ''Scribble Plot'',
      ctl_render_data = None, ctl_written_files = []\<rparr>"

text \<open>The session after \<open>obs.ms\<close> was chosen where its table has no rows.\<close>

definition ex_state_empty :: "eximg app_state" where
  "ex_state_empty =
     \<lparr>selected_ms = Some ''/data/obs.ms'', ms_select_options = [''obs.ms''],
      ms_select_value = Some ''obs.ms'', axis_opts = [''TIME'', ''DATA''],
      vis_colinfo = [(''DATA'', \<lparr>ci_shape = [2, 2], n_corr = 2, n_chan = 2\<rparr>)],
      flag_col_local = None, flag_col_global = None,
      select_x_options = [''TIME'', ''DATA''], select_x_value = Some ''TIME'',
      select_y_options = [''TIME'', ''DATA''], select_y_value = Some ''DATA'',
      select_group_options = [''None'', ''TIME'', ''DATA''],
      select_group_value = ''None'', select_corr_options = [''0'', ''1''],
      select_corr_value = [''0''], select_corr_visible = True,
      plot_button_disabled = False, export_button_disabled = False,
      status_text = [], outfig_title = ''Scribble Plot'', render_data = None,
      written_files = []\<rparr>"

text \<open>The controls that \<open>on_load\<close> creates for the example table.\<close>

definition ex_controls :: "eximg controls" where
  "ex_controls =
     \<lparr>ctl_path = ''/data/obs.ms'',
      ctl_axis_opts = [''TIME'', ''DATA'', ''CORRECTED_DATA''],
      ctl_flag_col = Some ''FLAG'', vis_columns_avail = [''DATA'', ''CORRECTED_DATA''],
      ctl_select_x_value = ''TIME'', ctl_select_y_value = ''DATA'',
      ctl_select_group_value = ''None'',
      ctl_select_corr_options = [''XX'', ''YY''], ctl_select_corr_value = [''XX''],
      ctl_select_corr_visible = True, ctl_export_button_disabled = True,
      plot_status = [], ctl_outfig_title = ''Scribble Plot'',
      ctl_render_data = None, ctl_written_files = []\<rparr>"

section \<open>Properties\<close>

subsection \<open>The examples are what the program reaches\<close>

lemma ex_state_reached:
  "run_events ex_rasterize ex_fs
     [ChooseMs (Some ''obs.ms''), ChooseX (Some ''CORRECTED_DATA''), ChooseY (Some ''DATA'')]
     (snd (bokeh_app ex_fs)) = ex_state"
  by code_simp

lemma ex_state_empty_reached:
  "run_events ex_rasterize ex_fs_empty [ChooseMs (Some ''obs.ms'')]
     (snd (bokeh_app ex_fs_empty)) = ex_state_empty"
  by code_simp


lemma wf_ex_table: "wf_table ex_table"
  by code_simp

subsection \<open>Selecting by a boolean mask\<close>

lemma mask_select_nths:
  "map fst (filter snd (zip xs bs)) = nths xs {i. i < length bs \<and> bs ! i}"
proof (induction xs arbitrary: bs)
  case Nil
  then show ?case by simp
next
  case (Cons x xs)
  show ?case
  proof (cases bs)
    case Nil
    then show ?thesis by simp
  next
    case (Cons b bs')
    have "{j. Suc j \<in> {i. i < length bs \<and> bs ! i}} = {i. i < length bs' \<and> bs' ! i}"
      using Cons by auto
    then show ?thesis
      using Cons Cons.IH [of bs'] by (simp add: nths_Cons)
  qed
qed

lemma nths_length_filter:
  "length bs = length xs \<Longrightarrow>
   length (nths xs {i. i < length bs \<and> bs ! i}) = length (filter (\<lambda>b. b) bs)"
proof (induction xs arbitrary: bs)
  case Nil
  then show ?case by simp
next
  case (Cons x xs)
  then obtain b bs' where bs: "bs = b # bs'" by (cases bs) auto
  have "{j. Suc j \<in> {i. i < length bs \<and> bs ! i}} = {i. i < length bs' \<and> bs' ! i}"
    using bs by auto
  then show ?case
    using bs Cons.prems Cons.IH [of bs'] by (simp add: nths_Cons)
qed

lemma col_size_cells: "col_size a = length (col_cells a)"
  by (cases a) simp_all

lemma bool_index_ok:
  assumes "shape a = [n]" "shape m = [n]"
  shows "bool_index a m =
           Inr (NDArray [length (nths (items a) {i. i < length (items m) \<and> items m ! i})]
                        (nths (items a) {i. i < length (items m) \<and> items m ! i}))"
  using assms by (simp add: bool_index_def Let_def mask_select_nths)

lemma col_index_bool:
  assumes "col_shape a = [n]" "shape m = [n]"
  shows "\<exists>a'. col_index a (BoolArr m) = Inr a' \<and>
              col_cells a' = nths (col_cells a) {i. i < length (items m) \<and> items m ! i} \<and>
              col_shape a' = [col_size a']"
  using assms by (cases a) (simp_all add: bool_index_ok nths_map)

subsection \<open>The two loops of load\_ms\_data and the frame\<close>

lemma load_loop_ok:
  assumes "\<forall>c \<in> set cs. \<exists>d. flat_data t ci c = Inr d"
  shows "\<exists>arrs'. load_loop t ci cs arrs = Inr arrs' \<and>
           fst ` set arrs' = fst ` set arrs \<union> set cs \<and>
           (distinct (map fst arrs) \<longrightarrow> distinct (map fst arrs')) \<and>
           (\<forall>c. map_of arrs' c =
                 (if c \<in> set cs then (case flat_data t ci c of Inr d \<Rightarrow> Some d | Inl e \<Rightarrow> None)
                  else map_of arrs c))"
  using assms
proof (induction cs arbitrary: arrs)
  case Nil
  then show ?case by simp
next
  case (Cons c cs)
  from Cons.prems obtain d where d: "flat_data t ci c = Inr d" by auto
  from Cons.prems have rest: "\<forall>c \<in> set cs. \<exists>d. flat_data t ci c = Inr d" by simp
  from Cons.IH [OF rest, of "AList.update c d arrs"]
  obtain arrs' where r: "load_loop t ci cs (AList.update c d arrs) = Inr arrs'"
    and k: "fst ` set arrs' = fst ` set (AList.update c d arrs) \<union> set cs"
    and dist: "distinct (map fst (AList.update c d arrs)) \<longrightarrow> distinct (map fst arrs')"
    and m: "\<forall>c'. map_of arrs' c' =
               (if c' \<in> set cs then (case flat_data t ci c' of Inr d \<Rightarrow> Some d | Inl e \<Rightarrow> None)
                else map_of (AList.update c d arrs) c')"
    by blast
  have "load_loop t ci (c # cs) arrs = Inr arrs'"
    using d r by simp
  moreover have "fst ` set arrs' = fst ` set arrs \<union> set (c # cs)"
    using k by (auto simp add: dom_update)
  moreover have "distinct (map fst arrs) \<longrightarrow> distinct (map fst arrs')"
    using dist by (simp add: distinct_update)
  moreover have "\<forall>c'. map_of arrs' c' =
               (if c' \<in> set (c # cs) then (case flat_data t ci c' of Inr d \<Rightarrow> Some d | Inl e \<Rightarrow> None)
                else map_of arrs c')"
    using m d by (auto simp add: update_conv')
  ultimately show ?case by blast
qed

lemma mask_loop_ok:
  assumes "\<forall>(k, a) \<in> set arrs. col_shape a = [n]" "shape m = [n]"
  shows "\<exists>arrs'. mask_loop (BoolArr m) arrs = Inr arrs' \<and>
           map fst arrs' = map fst arrs \<and>
           (\<forall>(k, a') \<in> set arrs'. col_shape a' = [col_size a']) \<and>
           (\<forall>k a. map_of arrs k = Some a \<longrightarrow>
              (\<exists>a'. map_of arrs' k = Some a' \<and>
                 col_cells a' = nths (col_cells a) {i. i < length (items m) \<and> items m ! i}))"
  using assms
proof (induction arrs)
  case Nil
  then show ?case by simp
next
  case (Cons ka arrs)
  obtain k a where ka: "ka = (k, a)" by (cases ka)
  from Cons.prems ka have sh: "col_shape a = [n]" by simp
  from col_index_bool [OF sh Cons.prems(2)]
  obtain a' where a': "col_index a (BoolArr m) = Inr a'"
    and cells: "col_cells a' = nths (col_cells a) {i. i < length (items m) \<and> items m ! i}"
    and sh': "col_shape a' = [col_size a']" by blast
  from Cons.prems have "\<forall>(k, a) \<in> set arrs. col_shape a = [n]" by simp
  from Cons.IH [OF this Cons.prems(2)]
  obtain rest' where r: "mask_loop (BoolArr m) arrs = Inr rest'"
    and keys: "map fst rest' = map fst arrs"
    and shapes: "\<forall>(k, a') \<in> set rest'. col_shape a' = [col_size a']"
    and vals: "\<forall>k a. map_of arrs k = Some a \<longrightarrow>
              (\<exists>a'. map_of rest' k = Some a' \<and>
                 col_cells a' = nths (col_cells a) {i. i < length (items m) \<and> items m ! i})"
    by blast
  have "mask_loop (BoolArr m) (ka # arrs) = Inr ((k, a') # rest')"
    using ka a' r by simp
  moreover have "map fst ((k, a') # rest') = map fst (ka # arrs)"
    using ka keys by simp
  moreover have "\<forall>(k, a') \<in> set ((k, a') # rest'). col_shape a' = [col_size a']"
    using sh' shapes by simp
  moreover have "\<forall>k' b. map_of (ka # arrs) k' = Some b \<longrightarrow>
              (\<exists>a'a. map_of ((k, a') # rest') k' = Some a'a \<and>
                 col_cells a'a = nths (col_cells b) {i. i < length (items m) \<and> items m ! i})"
    using ka cells vals by auto
  ultimately show ?case by blast
qed

lemma mask_loop_sizes:
  assumes "\<forall>(k, a) \<in> set arrs. col_shape a = [n] \<and> col_size a = length (items m)"
    and "shape m = [n]"
    and "mask_loop (BoolArr m) arrs = Inr arrs'"
  shows "\<forall>(k, a') \<in> set arrs'. col_size a' = length (filter (\<lambda>b. b) (items m))"
  using assms
proof (induction arrs arbitrary: arrs')
  case Nil
  then show ?case by simp
next
  case (Cons ka arrs)
  obtain k a where ka: "ka = (k, a)" by (cases ka)
  from Cons.prems ka have sh: "col_shape a = [n]" and sz: "col_size a = length (items m)"
    by simp_all
  from col_index_bool [OF sh Cons.prems(2)]
  obtain a' where a': "col_index a (BoolArr m) = Inr a'"
    and cells: "col_cells a' = nths (col_cells a) {i. i < length (items m) \<and> items m ! i}"
    by blast
  from Cons.prems(3) ka a' obtain rest' where r: "mask_loop (BoolArr m) arrs = Inr rest'"
    and res: "arrs' = (k, a') # rest'"
    by (auto split: sum.splits)
  from Cons.prems have "\<forall>(k, a) \<in> set arrs. col_shape a = [n] \<and> col_size a = length (items m)"
    by simp
  from Cons.IH [OF this Cons.prems(2) r]
  have rest: "\<forall>(k, a') \<in> set rest'. col_size a' = length (filter (\<lambda>b. b) (items m))" .
  have "col_size a' = length (filter (\<lambda>b. b) (items m))"
    using cells sz nths_length_filter [of "items m" "col_cells a"]
    by (simp add: col_size_cells)
  then show ?case using res rest by simp
qed

lemma col_flatten_shape: "col_shape (col_flatten a) = [col_size (col_flatten a)]"
  by (cases a) (simp_all add: flatten_def)

lemma flat_data_shape:
  assumes "wf_table t" "flat_data t ci c = Inr d"
  shows "col_shape d = [col_size d]"
proof -
  from assms(2) obtain data where g: "getcol t c = Inr data"
    by (auto simp add: flat_data_def split: if_splits sum.splits)
  then have "(c, data) \<in> set (tb_cols t)"
    by (auto simp add: getcol_def split: option.splits dest: map_of_SomeD)
  with assms(1) have wf: "wf_column data"
    by (auto simp add: wf_table_def list_all_iff)
  show ?thesis
  proof (cases "c \<in> set VIS_COLUMNS")
    case True
    with assms(2) g show ?thesis
      by (auto simp add: flat_data_def col_flatten_shape split: option.splits if_splits sum.splits)
  next
    case False
    show ?thesis
    proof (cases "col_ndim data > 1")
      case True
      with False assms(2) g show ?thesis by (auto simp add: flat_data_def col_flatten_shape)
    next
      case nd: False
      with False assms(2) g have d: "d = data" by (auto simp add: flat_data_def)
      from nd wf obtain n where "col_shape data = [n]"
        by (cases "col_shape data") (auto simp add: wf_column_def col_ndim_def)
      with wf d show ?thesis by (simp add: wf_column_def)
    qed
  qed
qed

lemma flat_flags_shape:
  assumes "flat_flags t ci f = Inr d"
  shows "col_shape d = [col_size d]"
  using assms
  by (auto simp add: flat_flags_def col_flatten_shape split: option.splits if_splits sum.splits)

lemma pd_DataFrame_ok:
  assumes "\<forall>(k, a) \<in> set arrs. col_shape a = [col_size a]"
    and "\<forall>(k, a) \<in> set arrs. col_size a = n"
  shows "pd_DataFrame arrs = Inr arrs"
proof (cases arrs)
  case Nil
  then show ?thesis by (simp add: pd_DataFrame_def)
next
  case (Cons ka rest)
  then have "col_size (snd (hd arrs)) = n"
    using assms(2) by (cases ka) auto
  then show ?thesis
    using assms by (auto simp add: pd_DataFrame_def list_all_iff col_ndim_def)
qed

subsection \<open>Flag masking\<close>

text \<open>
  Claim C1.  For a table with a FLAG column, \<open>load_ms_data\<close> called with
  \<open>flag_col = 'FLAG'\<close> returns a frame that holds exactly the requested columns, and
  each of them consists of the samples of its flattened array at the positions where the
  flattened flag array is False, in their original order, provided that every flattened
  data array is as long as the flattened flag array.  The table is well formed and its
  FLAG column is boolean.
\<close>

theorem load_ms_data_keeps_unflagged:
  assumes tab: "fs_table fs ms_path = Some t"
    and wf: "wf_table t"
    and has: "''FLAG'' \<in> set (tb_colnames t)"
    and flg: "flat_flags t corr_idx ''FLAG'' = Inr (BoolArr fl)"
    and cols: "\<forall>c \<in> set usecols. \<exists>d. flat_data t corr_idx c = Inr d \<and>
                 col_size d = length (items fl)"
  shows "\<exists>df. load_ms_data fs ms_path usecols corr_idx (Some ''FLAG'') = Inr df \<and>
           fst ` set df = set usecols \<and>
           (\<forall>c \<in> set usecols. \<exists>d a.
               flat_data t corr_idx c = Inr d \<and> map_of df c = Some a \<and>
               col_cells a = nths (col_cells d) {i. i < length (items fl) \<and> \<not> items fl ! i})"
proof -
  let ?n = "length (items fl)"
  let ?m = "NDArray (shape fl) (map Not (items fl))"
  from cols have "\<forall>c \<in> set usecols. \<exists>d. flat_data t corr_idx c = Inr d" by blast
  from load_loop_ok [OF this, of "[]"]
  obtain arrs where ll: "load_loop t corr_idx usecols [] = Inr arrs"
    and keys: "fst ` set arrs = set usecols"
    and dist: "distinct (map fst arrs)"
    and vals: "\<forall>c. map_of arrs c =
                 (if c \<in> set usecols
                  then (case flat_data t corr_idx c of Inr d \<Rightarrow> Some d | Inl e \<Rightarrow> None)
                  else None)"
    by auto
  have stored: "flat_data t corr_idx k = Inr a \<and> k \<in> set usecols" if "(k, a) \<in> set arrs" for k a
  proof -
    from that dist have "map_of arrs k = Some a" by simp
    with vals show ?thesis by (auto split: if_splits sum.splits)
  qed
  have shfl: "shape fl = [?n]"
    using flat_flags_shape [OF flg] by simp
  have pre: "\<forall>(k, a) \<in> set arrs. col_shape a = [?n] \<and> col_size a = length (items ?m)"
  proof clarify
    fix k a assume "(k, a) \<in> set arrs"
    from stored [OF this] have fd: "flat_data t corr_idx k = Inr a" and "k \<in> set usecols"
      by simp_all
    with cols have "col_size a = ?n" by auto
    with flat_data_shape [OF wf fd] show "col_shape a = [?n] \<and> col_size a = length (items ?m)"
      by simp
  qed
  then have pre1: "\<forall>(k, a) \<in> set arrs. col_shape a = [?n]" by auto
  have shm: "shape ?m = [?n]" using shfl by simp
  from mask_loop_ok [OF pre1 shm]
  obtain arrs' where ml: "mask_loop (BoolArr ?m) arrs = Inr arrs'"
    and keys': "map fst arrs' = map fst arrs"
    and shapes: "\<forall>(k, a') \<in> set arrs'. col_shape a' = [col_size a']"
    and cells: "\<forall>k a. map_of arrs k = Some a \<longrightarrow>
              (\<exists>a'. map_of arrs' k = Some a' \<and>
                 col_cells a' = nths (col_cells a) {i. i < length (items ?m) \<and> items ?m ! i})"
    by blast
  from mask_loop_sizes [OF pre shm ml]
  have sizes: "\<forall>(k, a') \<in> set arrs'. col_size a' = length (filter (\<lambda>b. b) (items ?m))" .
  have df: "pd_DataFrame arrs' = Inr arrs'"
    by (rule pd_DataFrame_ok [OF shapes sizes])
  have run: "load_ms_data fs ms_path usecols corr_idx (Some ''FLAG'') = Inr arrs'"
    using tab has ll flg ml df
    by (simp add: load_ms_data_def open_table_def)
  have k2: "fst ` set arrs' = set usecols"
  proof -
    have "fst ` set arrs' = set (map fst arrs')" by simp
    also have "\<dots> = set (map fst arrs)" using keys' by simp
    also have "\<dots> = set usecols" using keys by simp
    finally show ?thesis .
  qed
  have mset: "{i. i < length (items ?m) \<and> items ?m ! i} = {i. i < ?n \<and> \<not> items fl ! i}"
    by auto
  have each: "\<forall>c \<in> set usecols. \<exists>d a.
               flat_data t corr_idx c = Inr d \<and> map_of arrs' c = Some a \<and>
               col_cells a = nths (col_cells d) {i. i < ?n \<and> \<not> items fl ! i}"
  proof
    fix c assume c: "c \<in> set usecols"
    with cols obtain d where d: "flat_data t corr_idx c = Inr d" by blast
    with vals c have "map_of arrs c = Some d" by simp
    with cells obtain a' where "map_of arrs' c = Some a'"
      and "col_cells a' = nths (col_cells d) {i. i < length (items ?m) \<and> items ?m ! i}"
      by blast
    with d mset show "\<exists>d a. flat_data t corr_idx c = Inr d \<and> map_of arrs' c = Some a \<and>
               col_cells a = nths (col_cells d) {i. i < ?n \<and> \<not> items fl ! i}"
      by auto
  qed
  from run k2 each show ?thesis by blast
qed

text \<open>
  On the example: with the second correlation selected, the flags of the four samples
  are False, True, True, False, and the first and the last sample of each column stay.
\<close>

theorem load_ms_data_keeps_unflagged_witness:
  "fs_table ex_fs ''/data/obs.ms'' = Some ex_table \<and>
   wf_table ex_table \<and>
   ''FLAG'' \<in> set (tb_colnames ex_table) \<and>
   flat_flags ex_table (Some 1) ''FLAG'' = Inr (BoolArr (NDArray [4] [False, True, True, False])) \<and>
   flat_data ex_table (Some 1) ''DATA'' =
     Inr (NumArr (NDArray [4] [Sample ''0.2'' None, Sample ''0.4'' None,
                              Sample ''0.6'' None, Sample ''0.8'' None])) \<and>
   flat_data ex_table (Some 1) ''CORRECTED_DATA'' =
     Inr (NumArr (NDArray [4] [Sample ''1.2'' None, Sample ''1.4'' None,
                              Sample ''1.6'' None, Sample ''1.8'' None])) \<and>
   load_ms_data ex_fs ''/data/obs.ms'' [''DATA'', ''CORRECTED_DATA''] (Some 1) (Some ''FLAG'') =
     Inr [(''DATA'', NumArr (NDArray [2] [Sample ''0.2'' None, Sample ''0.8'' None])),
          (''CORRECTED_DATA'', NumArr (NDArray [2] [Sample ''1.2'' None, Sample ''1.8'' None]))]"
proof -
  have a: "fs_table ex_fs ''/data/obs.ms'' = Some ex_table" by code_simp
  have c: "''FLAG'' \<in> set (tb_colnames ex_table)" by code_simp
  have d: "flat_flags ex_table (Some 1) ''FLAG'' =
             Inr (BoolArr (NDArray [4] [False, True, True, False]))" by code_simp
  have e1: "flat_data ex_table (Some 1) ''DATA'' =
     Inr (NumArr (NDArray [4] [Sample ''0.2'' None, Sample ''0.4'' None,
                              Sample ''0.6'' None, Sample ''0.8'' None]))" by code_simp
  have e2: "flat_data ex_table (Some 1) ''CORRECTED_DATA'' =
     Inr (NumArr (NDArray [4] [Sample ''1.2'' None, Sample ''1.4'' None,
                              Sample ''1.6'' None, Sample ''1.8'' None]))" by code_simp
  have e: "\<forall>c \<in> set [''DATA'', ''CORRECTED_DATA''].
             \<exists>d. flat_data ex_table (Some 1) c = Inr d \<and>
                 col_size d = length (items (NDArray [4] [False, True, True, False]))"
    using e1 e2 by simp
  have r: "load_ms_data ex_fs ''/data/obs.ms'' [''DATA'', ''CORRECTED_DATA''] (Some 1) (Some ''FLAG'') =
     Inr [(''DATA'', NumArr (NDArray [2] [Sample ''0.2'' None, Sample ''0.8'' None])),
          (''CORRECTED_DATA'', NumArr (NDArray [2] [Sample ''1.2'' None, Sample ''1.8'' None]))]"
    by code_simp
  from load_ms_data_keeps_unflagged [OF a wf_ex_table c d e] a wf_ex_table c d e1 e2 r
  show ?thesis by simp
qed

subsection \<open>Correlation labels\<close>

text \<open>
  Claim C3.  When the POLARIZATION subtable can be opened and its CORR\_TYPE column is
  an integer array with at least one row, \<open>get_corr_labels\<close> returns the label of each
  code of the first row, in the order of the codes, and the codes 5 to 12 are labelled
  RR, RL, LR, LL, XX, XY, YX, YY.
\<close>

theorem get_corr_labels_corr_type:
  assumes "fs_table fs (path_join ms_path ''POLARIZATION'') = Some pol"
    and "getcol pol ''CORR_TYPE'' = Inr (IntArr (NDArray [r, n] codes))"
    and "0 < r"
  shows "get_corr_labels fs ms_path vis_col = Inr (map corr_name (take n codes)) \<and>
         corr_name 5 = ''RR'' \<and> corr_name 6 = ''RL'' \<and> corr_name 7 = ''LR'' \<and>
         corr_name 8 = ''LL'' \<and> corr_name 9 = ''XX'' \<and> corr_name 10 = ''XY'' \<and>
         corr_name 11 = ''YX'' \<and> corr_name 12 = ''YY''"
  using assms
  by (simp add: get_corr_labels_def read_corr_names_def open_table_def first_row_def
      corr_name_def CORR_MAP_def comp_def take_map)

theorem get_corr_labels_corr_type_witness:
  "fs_table ex_fs (path_join ''/data/obs.ms'' ''POLARIZATION'') = Some ex_pol \<and>
   getcol ex_pol ''CORR_TYPE'' = Inr (IntArr (NDArray [1, 2] [9, 12])) \<and>
   get_corr_labels ex_fs ''/data/obs.ms'' ''DATA'' = Inr [''XX'', ''YY'']"
proof -
  have a: "fs_table ex_fs (path_join ''/data/obs.ms'' ''POLARIZATION'') = Some ex_pol"
    by code_simp
  have b: "getcol ex_pol ''CORR_TYPE'' = Inr (IntArr (NDArray [1, 2] [9, 12]))"
    by code_simp
  have c: "(0::nat) < 1" by simp
  from get_corr_labels_corr_type [OF a b c, of "''DATA''"] a b
  show ?thesis by (simp add: corr_name_def CORR_MAP_def)
qed

subsection \<open>Export\<close>



subsection \<open>The path given on the command line\<close>

lemma bokeh_app_selected_ms: "selected_ms (snd (bokeh_app fs)) = None"
  by (simp add: bokeh_app_def update_ms_list_def assign_ms_select_def initial_state_def
      and_then_def split: sum.splits option.splits)

text \<open>
  Claim C8.  The application that \<open>plot_gui\<close> serves for a path is the one it serves
  for no path: the state of a new session is the same, no Measurement Set is selected
  in it, and every sequence of events leads both to the same state.
\<close>

theorem plot_gui_ignores_ms_path:
  "(plot_gui fs (Some p) :: exn option \<times> 'img app_state) = plot_gui fs None \<and>
   selected_ms (snd (plot_gui fs (Some p) :: exn option \<times> 'img app_state)) = None \<and>
   run_events rasterize fs evs (snd (plot_gui fs (Some p) :: exn option \<times> 'img app_state)) =
     run_events rasterize fs evs (snd (plot_gui fs None))"
  by (simp add: plot_gui_def app_wrapper_def bokeh_app_selected_ms)

theorem plot_gui_ignores_ms_path_witness:
  "(plot_gui ex_fs (Some ''/data/obs.ms'') :: exn option \<times> eximg app_state) = plot_gui ex_fs None \<and>
   selected_ms (snd (plot_gui ex_fs (Some ''/data/obs.ms'') :: exn option \<times> eximg app_state)) = None \<and>
   plot_button_disabled (run_events ex_rasterize ex_fs [ClickPlot]
      (snd (plot_gui ex_fs (Some ''/data/obs.ms'')))) \<and>
   status_text (run_events ex_rasterize ex_fs [ClickPlot]
      (snd (plot_gui ex_fs (Some ''/data/obs.ms'')))) = ''No Measurement Set selected!''"
proof -
  have a: "plot_button_disabled (run_events ex_rasterize ex_fs [ClickPlot] (snd (plot_gui ex_fs None)))"
    by code_simp
  have b: "status_text (run_events ex_rasterize ex_fs [ClickPlot] (snd (plot_gui ex_fs None))) =
             ''No Measurement Set selected!''"
    by code_simp
  have c: "selected_ms (snd (plot_gui ex_fs None :: exn option \<times> eximg app_state)) = None"
    by code_simp
  from plot_gui_ignores_ms_path [of ex_fs "''/data/obs.ms''" ex_rasterize "[ClickPlot]"] a b c
  show ?thesis by simp
qed

subsection \<open>Measurement Set candidates\<close>

lemma candidates_loop_filter:
  "candidates_loop fs path entries acc =
     acc @ filter (\<lambda>f. looks_like_ms fs (path_join path f)) entries"
  by (induction entries arbitrary: acc) (simp_all add: looks_like_ms_def Let_def)

lemma messages_differ: "loaded_message p \<noteq> invalid_path_message"
  by (simp add: loaded_message_def invalid_path_message_def)

lemma on_load_rejects:
  assumes "strip (ms_path_input pg) = [] \<or> \<not> looks_like_ms fs (strip (ms_path_input pg))"
  shows "on_load fs pg =
           (None, pg\<lparr>page_status := invalid_path_message, plot_layout_children := []\<rparr>)"
  using assms by (auto simp add: on_load_def looks_like_ms_def Let_def)

lemma on_load_accepts:
  assumes "strip (ms_path_input pg) \<noteq> []" "looks_like_ms fs (strip (ms_path_input pg))"
  shows "page_status (snd (on_load fs pg)) =
           loaded_message (fs_abspath fs (strip (ms_path_input pg)))"
proof -
  let ?p = "strip (ms_path_input pg)"
  let ?s1 = "pg\<lparr>page_status := loaded_message (fs_abspath fs ?p)\<rparr>"
  from assms have guard:
    "\<not> (?p = [] \<or> \<not> fs_isdir fs ?p \<or> \<not> fs_exists fs (path_join ?p ''TABLES''))"
    by (simp add: looks_like_ms_def)
  have "snd (on_load fs pg) = ?s1 \<or>
        (\<exists>c. snd (on_load fs pg) = ?s1\<lparr>plot_layout_children := [c]\<rparr>)"
    unfolding on_load_def Let_def using guard
    by (auto split: sum.split prod.split option.split)
  then show ?thesis by auto
qed

text \<open>
  Claim C10.  \<open>list_possible_ms_dirs\<close> returns, in the order of the listing, exactly
  the entries of the search path that are directories containing an entry named
  \<open>TABLES\<close>; the loader of the built copy rejects a path exactly when, stripped, it is
  empty or is not such a directory, and rejecting means the error message and no
  controls.
\<close>

theorem ms_candidate_iff_tables:
  "(fs_listdir fs path = Some entries \<longrightarrow>
      list_possible_ms_dirs fs path =
        Inr (filter (\<lambda>f. looks_like_ms fs (path_join path f)) entries)) \<and>
   (page_status (snd (on_load fs pg)) = invalid_path_message \<longleftrightarrow>
      strip (ms_path_input pg) = [] \<or> \<not> looks_like_ms fs (strip (ms_path_input pg))) \<and>
   (strip (ms_path_input pg) = [] \<or> \<not> looks_like_ms fs (strip (ms_path_input pg)) \<longrightarrow>
      on_load fs pg =
        (None, pg\<lparr>page_status := invalid_path_message, plot_layout_children := []\<rparr>))"
proof (intro conjI impI)
  assume "fs_listdir fs path = Some entries"
  then show "list_possible_ms_dirs fs path =
        Inr (filter (\<lambda>f. looks_like_ms fs (path_join path f)) entries)"
    by (simp add: list_possible_ms_dirs_def candidates_loop_filter)
next
  show "page_status (snd (on_load fs pg)) = invalid_path_message \<longleftrightarrow>
      strip (ms_path_input pg) = [] \<or> \<not> looks_like_ms fs (strip (ms_path_input pg))"
  proof (cases "strip (ms_path_input pg) = [] \<or> \<not> looks_like_ms fs (strip (ms_path_input pg))")
    case True
    then show ?thesis using on_load_rejects [OF True] by simp
  next
    case False
    then have "page_status (snd (on_load fs pg)) =
                 loaded_message (fs_abspath fs (strip (ms_path_input pg)))"
      using on_load_accepts [of pg fs] by simp
    with False show ?thesis by (simp add: messages_differ)
  qed
next
  assume "strip (ms_path_input pg) = [] \<or> \<not> looks_like_ms fs (strip (ms_path_input pg))"
  then show "on_load fs pg =
        (None, pg\<lparr>page_status := invalid_path_message, plot_layout_children := []\<rparr>)"
    by (rule on_load_rejects)
qed

text \<open>
  In the example directory only \<open>obs.ms\<close> is offered; the directory \<open>notes\<close> has no
  \<open>TABLES\<close> entry and the loader rejects it, while it accepts \<open>/data/obs.ms\<close>.
\<close>

theorem ms_candidate_iff_tables_witness:
  "fs_listdir ex_fs ''.'' = Some [''obs.ms'', ''notes'', ''readme.txt''] \<and>
   list_possible_ms_dirs ex_fs ''.'' = Inr [''obs.ms''] \<and>
   looks_like_ms ex_fs ''/data/obs.ms'' \<and>
   page_status (snd (on_load ex_fs ex_page)) \<noteq> invalid_path_message \<and>
   \<not> looks_like_ms ex_fs ''./notes'' \<and>
   on_load ex_fs (ex_page\<lparr>ms_path_input := ''./notes''\<rparr>) =
     (None, ex_page\<lparr>ms_path_input := ''./notes'', page_status := invalid_path_message,
                    plot_layout_children := []\<rparr>)"
proof -
  have l: "fs_listdir ex_fs ''.'' = Some [''obs.ms'', ''notes'', ''readme.txt'']" by code_simp
  have f: "filter (\<lambda>f. looks_like_ms ex_fs (path_join ''.'' f)) [''obs.ms'', ''notes'', ''readme.txt'']
             = [''obs.ms'']" by code_simp
  have s1: "strip (ms_path_input ex_page) = ''/data/obs.ms''" by code_simp
  have s2: "strip (ms_path_input (ex_page\<lparr>ms_path_input := ''./notes''\<rparr>)) = ''./notes''"
    by code_simp
  have y: "looks_like_ms ex_fs ''/data/obs.ms''" by code_simp
  have n: "\<not> looks_like_ms ex_fs ''./notes''" by code_simp
  from ms_candidate_iff_tables [of ex_fs "''.''" "[''obs.ms'', ''notes'', ''readme.txt'']" ex_page]
       ms_candidate_iff_tables [of ex_fs "''.''" "[''obs.ms'', ''notes'', ''readme.txt'']"
          "ex_page\<lparr>ms_path_input := ''./notes''\<rparr>"]
       l f s1 s2 y n
  show ?thesis by simp
qed

subsection \<open>Pressing Plot\<close>

lemma render_frame_corr_value:
  "render_frame r x y u df (s\<lparr>select_corr_value := v\<rparr>) =
   apsnd (\<lambda>s'. s'\<lparr>select_corr_value := v\<rparr>) (render_frame r x y u df s)"
  by (cases "r df x y") (simp_all add: render_frame_def)

lemma render_frame_first:
  "render_frame r x y (Some (c # rest)) df s = render_frame r x y (Some [c]) df s"
  by (cases "r df x y") (simp_all add: render_frame_def plot_title_def)

lemma load_selection_corr_value:
  "load_selection r fs p u (s\<lparr>select_corr_value := v\<rparr>) =
   apsnd (\<lambda>s'. s'\<lparr>select_corr_value := v\<rparr>) (load_selection r fs p u s)"
  by (simp add: load_selection_def Let_def render_frame_corr_value
      split: sum.split option.split)

lemma load_selection_first:
  "load_selection r fs p (Some (c # rest)) s = load_selection r fs p (Some [c]) s"
proof -
  have "corr_idx_of (Some (c # rest)) (select_corr_options s) =
        corr_idx_of (Some [c]) (select_corr_options s)"
    by (simp add: corr_idx_of_def)
  then show ?thesis
    unfolding load_selection_def
    by (simp only: render_frame_first [of r _ _ c rest])
qed

lemma apsnd_corr_value_twice:
  "apsnd (\<lambda>s'. s'\<lparr>select_corr_value := v\<rparr>)
     (apsnd (\<lambda>s'. s'\<lparr>select_corr_value := w\<rparr>) x) =
   apsnd (\<lambda>s'. s'\<lparr>select_corr_value := v\<rparr>) x"
  by (cases x) simp

lemma run_plot_first:
  "run_plot r fs (s\<lparr>select_corr_value := c # rest\<rparr>) =
   apsnd (\<lambda>s'. s'\<lparr>select_corr_value := c # rest\<rparr>)
     (run_plot r fs (s\<lparr>select_corr_value := [c]\<rparr>))"
proof (cases "select_corr_visible s")
  case True
  then show ?thesis
    by (simp add: run_plot_def load_selection_corr_value apsnd_corr_value_twice
        load_selection_first [of r fs _ c rest] split: option.split)
next
  case False
  then show ?thesis
    by (simp add: run_plot_def load_selection_corr_value apsnd_corr_value_twice
        split: option.split)
qed

lemma build_render_frame_corr_value:
  "build_render_frame r x y u df (b\<lparr>ctl_select_corr_value := v\<rparr>) =
   apsnd (\<lambda>b'. b'\<lparr>ctl_select_corr_value := v\<rparr>) (build_render_frame r x y u df b)"
  by (cases "r df x y") (simp_all add: build_render_frame_def)

lemma build_render_frame_first:
  "build_render_frame r x y (Some (c # rest)) df b = build_render_frame r x y (Some [c]) df b"
  by (cases "r df x y") (simp_all add: build_render_frame_def plot_title_def)

lemma build_load_selection_corr_value:
  "build_load_selection r se fs u (b\<lparr>ctl_select_corr_value := v\<rparr>) =
   apsnd (\<lambda>b'. b'\<lparr>ctl_select_corr_value := v\<rparr>) (build_load_selection r se fs u b)"
  by (simp add: build_load_selection_def Let_def build_render_frame_corr_value
      split: sum.split)

lemma build_load_selection_first:
  "build_load_selection r se fs (Some (c # rest)) b = build_load_selection r se fs (Some [c]) b"
proof -
  have "corr_idx_of (Some (c # rest)) (ctl_select_corr_options b) =
        corr_idx_of (Some [c]) (ctl_select_corr_options b)"
    by (simp add: corr_idx_of_def)
  then show ?thesis
    unfolding build_load_selection_def
    by (simp only: build_render_frame_first [of r _ _ c rest])
qed

lemma apsnd_ctl_corr_value_twice:
  "apsnd (\<lambda>b'. b'\<lparr>ctl_select_corr_value := v\<rparr>)
     (apsnd (\<lambda>b'. b'\<lparr>ctl_select_corr_value := w\<rparr>) x) =
   apsnd (\<lambda>b'. b'\<lparr>ctl_select_corr_value := v\<rparr>) x"
  by (cases x) simp

lemma build_run_plot_first:
  "build_run_plot r se fs (b\<lparr>ctl_select_corr_value := c # rest\<rparr>) =
   apsnd (\<lambda>b'. b'\<lparr>ctl_select_corr_value := c # rest\<rparr>)
     (build_run_plot r se fs (b\<lparr>ctl_select_corr_value := [c]\<rparr>))"
proof (cases "ctl_select_corr_visible b")
  case True
  then show ?thesis
    by (simp add: build_run_plot_def build_load_selection_corr_value
        apsnd_ctl_corr_value_twice build_load_selection_first [of r se fs c rest])
next
  case False
  then show ?thesis
    by (simp add: build_run_plot_def build_load_selection_corr_value
        apsnd_ctl_corr_value_twice)
qed

text \<open>
  Claim C9.  With more than one correlation selected only the first counts: the
  correlation index and the title are those of the first selected label, and pressing
  Plot with the selection \<open>c # rest\<close> raises and renders what it does with the
  selection \<open>[c]\<close>; the two outcomes differ in nothing but the selection itself.  The
  same holds for the built copy.
\<close>

theorem only_first_correlation_used:
  "corr_idx_of (Some (c # rest)) labels = corr_idx_of (Some [c]) labels \<and>
   corr_idx_of (Some (c # rest)) labels =
     (case list_index labels c of Inl e \<Rightarrow> Inl e | Inr i \<Rightarrow> Inr (Some (int i))) \<and>
   plot_title x y (Some (c # rest)) = x @ '' vs '' @ y @ '' ('' @ c @ '')'' \<and>
   run_plot r fs (s\<lparr>select_corr_value := c # rest\<rparr>) =
     apsnd (\<lambda>s'. s'\<lparr>select_corr_value := c # rest\<rparr>)
       (run_plot r fs (s\<lparr>select_corr_value := [c]\<rparr>)) \<and>
   build_run_plot r se fs (b\<lparr>ctl_select_corr_value := c # rest\<rparr>) =
     apsnd (\<lambda>b'. b'\<lparr>ctl_select_corr_value := c # rest\<rparr>)
       (build_run_plot r se fs (b\<lparr>ctl_select_corr_value := [c]\<rparr>))"
  using run_plot_first [where r = r and fs = fs and s = s and c = c and rest = rest]
    build_run_plot_first [where r = r and se = se and fs = fs and b = b and c = c and rest = rest]
  by (simp add: corr_idx_of_def plot_title_def)

text \<open>
  In the example session, the selection YY, XX plots the samples of YY alone (those of
  odd position) under the title of YY, as the selection YY does.
\<close>

theorem only_first_correlation_used_witness:
  "run_plot ex_rasterize ex_fs (ex_state\<lparr>select_corr_value := [''YY'', ''XX'']\<rparr>) =
     apsnd (\<lambda>s'. s'\<lparr>select_corr_value := [''YY'', ''XX'']\<rparr>)
       (run_plot ex_rasterize ex_fs (ex_state\<lparr>select_corr_value := [''YY'']\<rparr>)) \<and>
   outfig_title (snd (run_plot ex_rasterize ex_fs (ex_state\<lparr>select_corr_value := [''YY'', ''XX'']\<rparr>)))
     = ''CORRECTED_DATA vs DATA (YY)'' \<and>
   render_data (snd (run_plot ex_rasterize ex_fs (ex_state\<lparr>select_corr_value := [''YY'', ''XX'']\<rparr>)))
     = Some ([(''CORRECTED_DATA'',
                 NumArr (NDArray [4] [Sample ''1.2'' None, Sample ''1.4'' None,
                                      Sample ''1.6'' None, Sample ''1.8'' None])),
              (''DATA'',
                 NumArr (NDArray [4] [Sample ''0.2'' None, Sample ''0.4'' None,
                                      Sample ''0.6'' None, Sample ''0.8'' None]))],
             ''CORRECTED_DATA'', ''DATA'')"
proof -
  have t: "outfig_title (snd (run_plot ex_rasterize ex_fs (ex_state\<lparr>select_corr_value := [''YY'']\<rparr>)))
     = ''CORRECTED_DATA vs DATA (YY)''"
    by code_simp
  have d: "render_data (snd (run_plot ex_rasterize ex_fs (ex_state\<lparr>select_corr_value := [''YY'']\<rparr>)))
     = Some ([(''CORRECTED_DATA'',
                 NumArr (NDArray [4] [Sample ''1.2'' None, Sample ''1.4'' None,
                                      Sample ''1.6'' None, Sample ''1.8'' None])),
              (''DATA'',
                 NumArr (NDArray [4] [Sample ''0.2'' None, Sample ''0.4'' None,
                                      Sample ''0.6'' None, Sample ''0.8'' None]))],
             ''CORRECTED_DATA'', ''DATA'')"
    by code_simp
  from only_first_correlation_used
         [where c = "''YY''" and rest = "[''XX'']" and labels = "[]" and x = "[]" and y = "[]"
            and r = ex_rasterize and fs = ex_fs and s = ex_state and se = "\<lambda>e. []"
            and b = ex_controls_flagged] t d
  show ?thesis by simp
qed

text \<open>
  Claim C4.  When the frame that \<open>load_ms_data\<close> returns for the selection is empty,
  pressing Plot raises nothing and changes the status text to the "no data" message and
  nothing else: the image and the title of the figure stay as they were.  The same
  holds for the built copy, with its own message in the plot status.
\<close>

theorem empty_frame_reports_no_data:
  "(selected_ms s = Some p \<and> p \<noteq> [] \<and>
    select_x_value s = Some x \<and> select_y_value s = Some y \<and>
    corr_idx_of (if select_corr_visible s then Some (select_corr_value s) else None)
      (select_corr_options s) = Inr ci \<and>
    load_ms_data fs p
      (plot_usecols x y
         (if select_group_value s \<noteq> ''None'' then Some (select_group_value s) else None)
         (flag_col_local s) VIS_COLUMNS)
      ci (flag_col_local s) = Inr df \<and>
    df_empty df
    \<longrightarrow> run_plot r fs s =
          (None, s\<lparr>status_text := ''No data to plot (possible all flagged/filtered?)''\<rparr>)) \<and>
   (corr_idx_of (if ctl_select_corr_visible b then Some (ctl_select_corr_value b) else None)
      (ctl_select_corr_options b) = Inr ci' \<and>
    load_ms_data fs (ctl_path b)
      (plot_usecols (ctl_select_x_value b) (ctl_select_y_value b)
         (if ctl_select_group_value b \<noteq> ''None'' then Some (ctl_select_group_value b) else None)
         (ctl_flag_col b) (vis_columns_avail b))
      ci' (ctl_flag_col b) = Inr df' \<and>
    df_empty df'
    \<longrightarrow> build_run_plot r se fs b =
          (None, b\<lparr>plot_status :=
                     ''<span style='color:red;'>No data to plot (all flagged?)</span>''\<rparr>))"
  by (simp add: run_plot_def load_selection_def render_frame_def
      build_run_plot_def build_load_selection_def build_render_frame_def Let_def)

text \<open>
  A table without rows gives an empty frame in the application; a table whose samples
  are all flagged gives one in the built copy.
\<close>

theorem empty_frame_reports_no_data_witness:
  "load_ms_data ex_fs_empty ''/data/obs.ms'' [''TIME'', ''DATA''] (Some 0) None =
     Inr [(''TIME'', NumArr (NDArray [0] [])), (''DATA'', NumArr (NDArray [0] []))] \<and>
   run_plot ex_rasterize ex_fs_empty ex_state_empty =
     (None, ex_state_empty\<lparr>status_text := ''No data to plot (possible all flagged/filtered?)''\<rparr>) \<and>
   load_ms_data ex_fs_flagged ''/data/obs.ms'' [''WEIGHT_SPECTRUM'', ''SIGMA_SPECTRUM'', ''FLAG'']
       None (Some ''FLAG'') =
     Inr [(''WEIGHT_SPECTRUM'', NumArr (NDArray [0] [])),
          (''SIGMA_SPECTRUM'', NumArr (NDArray [0] [])),
          (''FLAG'', BoolArr (NDArray [0] []))] \<and>
   build_run_plot ex_rasterize (\<lambda>e. []) ex_fs_flagged ex_controls_flagged =
     (None, ex_controls_flagged\<lparr>plot_status :=
              ''<span style='color:red;'>No data to plot (all flagged?)</span>''\<rparr>)"
proof -
  have l1: "load_ms_data ex_fs_empty ''/data/obs.ms'' [''TIME'', ''DATA''] (Some 0) None =
     Inr [(''TIME'', NumArr (NDArray [0] [])), (''DATA'', NumArr (NDArray [0] []))]"
    by code_simp
  have l2: "load_ms_data ex_fs_flagged ''/data/obs.ms''
       [''WEIGHT_SPECTRUM'', ''SIGMA_SPECTRUM'', ''FLAG''] None (Some ''FLAG'') =
     Inr [(''WEIGHT_SPECTRUM'', NumArr (NDArray [0] [])),
          (''SIGMA_SPECTRUM'', NumArr (NDArray [0] [])),
          (''FLAG'', BoolArr (NDArray [0] []))]"
    by code_simp
  have u1: "plot_usecols ''TIME'' ''DATA''
         (if select_group_value ex_state_empty \<noteq> ''None''
          then Some (select_group_value ex_state_empty) else None)
         (flag_col_local ex_state_empty) VIS_COLUMNS = [''TIME'', ''DATA'']"
    by code_simp
  have u2: "plot_usecols (ctl_select_x_value ex_controls_flagged)
         (ctl_select_y_value ex_controls_flagged)
         (if ctl_select_group_value ex_controls_flagged \<noteq> ''None''
          then Some (ctl_select_group_value ex_controls_flagged) else None)
         (ctl_flag_col ex_controls_flagged) (vis_columns_avail ex_controls_flagged) =
        [''WEIGHT_SPECTRUM'', ''SIGMA_SPECTRUM'', ''FLAG'']"
    by code_simp
  have c1: "corr_idx_of (if select_corr_visible ex_state_empty
                         then Some (select_corr_value ex_state_empty) else None)
              (select_corr_options ex_state_empty) = Inr (Some 0)"
    by code_simp
  have c2: "corr_idx_of (if ctl_select_corr_visible ex_controls_flagged
                         then Some (ctl_select_corr_value ex_controls_flagged) else None)
              (ctl_select_corr_options ex_controls_flagged) = Inr None"
    by code_simp
  have s1: "selected_ms ex_state_empty = Some ''/data/obs.ms''"
    and s2: "select_x_value ex_state_empty = Some ''TIME''"
    and s3: "select_y_value ex_state_empty = Some ''DATA''"
    and s4: "flag_col_local ex_state_empty = None"
    and s5: "ctl_path ex_controls_flagged = ''/data/obs.ms''"
    and s6: "ctl_flag_col ex_controls_flagged = Some ''FLAG''"
    by (simp_all add: ex_state_empty_def ex_controls_flagged_def)
  have e1: "df_empty [(''TIME'', NumArr (NDArray [0] [])), (''DATA'', NumArr (NDArray [0] []))]"
    by code_simp
  have e2: "df_empty [(''WEIGHT_SPECTRUM'', NumArr (NDArray [0] [])),
          (''SIGMA_SPECTRUM'', NumArr (NDArray [0] [])),
          (''FLAG'', BoolArr (NDArray [0] []))]"
    by code_simp
  from empty_frame_reports_no_data
         [where s = ex_state_empty and p = "''/data/obs.ms''" and x = "''TIME''"
            and y = "''DATA''" and ci = "Some 0" and fs = ex_fs_empty
            and df = "[(''TIME'', NumArr (NDArray [0] [])), (''DATA'', NumArr (NDArray [0] []))]"
            and r = ex_rasterize]
       empty_frame_reports_no_data
         [where b = ex_controls_flagged and ci' = None and fs = ex_fs_flagged
            and df' = "[(''WEIGHT_SPECTRUM'', NumArr (NDArray [0] [])),
                        (''SIGMA_SPECTRUM'', NumArr (NDArray [0] [])),
                        (''FLAG'', BoolArr (NDArray [0] []))]"
            and r = ex_rasterize and se = "\<lambda>e. []"]
       l1 l2 u1 u2 c1 c2 s1 s2 s3 s4 s5 s6 e1 e2
  show ?thesis by simp
qed

subsection \<open>No Measurement Set\<close>




subsection \<open>Columns of one length\<close>

lemma load_loop_stored:
  assumes "\<forall>c \<in> set cs. \<exists>d. flat_data t ci c = Inr d"
  shows "\<exists>arrs. load_loop t ci cs [] = Inr arrs \<and>
           fst ` set arrs = set cs \<and>
           (\<forall>k a. (k, a) \<in> set arrs \<longleftrightarrow> k \<in> set cs \<and> flat_data t ci k = Inr a) \<and>
           (\<forall>k a. map_of arrs k = Some a \<longleftrightarrow> k \<in> set cs \<and> flat_data t ci k = Inr a)"
proof -
  from load_loop_ok [OF assms, of "[]"]
  obtain arrs where ll: "load_loop t ci cs [] = Inr arrs"
    and keys: "fst ` set arrs = set cs"
    and dist: "distinct (map fst arrs)"
    and vals: "\<forall>c. map_of arrs c =
                 (if c \<in> set cs
                  then (case flat_data t ci c of Inr d \<Rightarrow> Some d | Inl e \<Rightarrow> None)
                  else None)"
    by auto
  have m: "map_of arrs k = Some a \<longleftrightarrow> k \<in> set cs \<and> flat_data t ci k = Inr a" for k a
    using vals assms by (auto split: if_splits sum.splits)
  have "(k, a) \<in> set arrs \<longleftrightarrow> k \<in> set cs \<and> flat_data t ci k = Inr a" for k a
    using m [of k a] dist by simp
  with ll keys m show ?thesis by blast
qed











subsection \<open>The interface columns\<close>

lemma show_corr_labels_frame:
  "(snd (show_corr_labels fs v (s\<lparr>select_corr_visible := b\<rparr>)))
     \<lparr>select_corr_visible := select_corr_visible s,
      select_corr_options := select_corr_options s,
      select_corr_value := select_corr_value s\<rparr> = s"
  by (simp add: show_corr_labels_def Let_def split: option.split sum.split list.split)


lemma ucv_frame:
  "(snd (update_corr_visibility fs s))
     \<lparr>select_corr_visible := select_corr_visible s,
      select_corr_options := select_corr_options s,
      select_corr_value := select_corr_value s\<rparr> = s"
  by (simp add: update_corr_visibility_def Let_def show_corr_labels_frame)


lemma ucv_flag_state:
  "flag_state fc (snd (update_corr_visibility fs s)) = flag_state fc s"
proof -
  let ?s' = "snd (update_corr_visibility fs s)"
  have "flag_state fc (?s'\<lparr>select_corr_visible := select_corr_visible s,
      select_corr_options := select_corr_options s,
      select_corr_value := select_corr_value s\<rparr>) = flag_state fc s"
    by (simp only: ucv_frame)
  then show ?thesis by (auto simp add: flag_state_def flag_discipline_def)
qed

lemma and_then_inv:
  assumes "P (snd r)" and "\<And>s. P s \<Longrightarrow> P (snd (f s))"
  shows "P (snd (and_then r f))"
  using assms by (cases r; cases "fst r") (auto simp add: and_then_def)

lemma assign_select_x_flag_state:
  "flag_state fc s \<Longrightarrow> flag_state fc (snd (assign_select_x fs v s))"
  by (simp add: assign_select_x_def ucv_flag_state) (auto simp add: flag_state_def flag_discipline_def)

lemma assign_select_y_flag_state:
  "flag_state fc s \<Longrightarrow> flag_state fc (snd (assign_select_y fs v s))"
  by (simp add: assign_select_y_def ucv_flag_state) (auto simp add: flag_state_def flag_discipline_def)

lemma vis_colinfo_loop_keys:
  "vis_colinfo_loop cn desc cs acc = Inr vi \<Longrightarrow>
   fst ` set vi = fst ` set acc \<union> (set cs \<inter> set cn)"
proof (induction cs arbitrary: acc)
  case Nil
  then show ?case by simp
next
  case (Cons c cs)
  show ?case
  proof (cases "c \<in> set cn")
    case False
    with Cons.prems have "vis_colinfo_loop cn desc cs acc = Inr vi" by simp
    from Cons.IH [OF this] False show ?thesis by auto
  next
    case True
    with Cons.prems obtain d where d: "map_of desc c = Some d"
      by (cases "map_of desc c") auto
    let ?shp = "case d of None \<Rightarrow> [] | Some s \<Rightarrow> s"
    let ?ci = "\<lparr>ci_shape = ?shp,
               n_corr = (if length ?shp \<ge> 1 then ?shp ! (length ?shp - 1) else 1),
               n_chan = (if length ?shp \<ge> 2 then ?shp ! (length ?shp - 2) else 1)\<rparr>"
    from Cons.prems True d
    have "vis_colinfo_loop cn desc cs (AList.update c ?ci acc) = Inr vi"
      by (simp add: Let_def)
    from Cons.IH [OF this] True show ?thesis
      by (auto simp add: dom_update)
  qed
qed

lemma load_ms_columns_keys:
  assumes "load_ms_columns fs p = Inr (cn, vi)"
  shows "fst ` set vi = set VIS_COLUMNS \<inter> set cn"
proof -
  from assms have "\<exists>desc. vis_colinfo_loop cn desc VIS_COLUMNS [] = Inr vi"
    by (auto simp add: load_ms_columns_def Let_def split: sum.splits)
  then obtain desc where "vis_colinfo_loop cn desc VIS_COLUMNS [] = Inr vi" ..
  from vis_colinfo_loop_keys [OF this] show ?thesis by simp
qed

lemma ms_chosen_flag_state:
  assumes "flag_state fc s"
  shows "flag_state fc (snd (ms_chosen fs s))"
proof (cases "ms_select_value s")
  case None
  with assms show ?thesis by (simp add: ms_chosen_def)
next
  case (Some v)
  show ?thesis
  proof (cases "v = []")
    case True
    with Some assms show ?thesis by (simp add: ms_chosen_def)
  next
    case False
    let ?s1 = "s\<lparr>selected_ms := Some (fs_abspath fs v)\<rparr>"
    have s1: "flag_state fc ?s1" using assms by (auto simp add: flag_state_def flag_discipline_def)
    show ?thesis
    proof (cases "load_ms_columns fs (fs_abspath fs v)")
      case (Inl e)
      with Some False s1 show ?thesis by (simp add: ms_chosen_def Let_def)
    next
      case (Inr cv)
      obtain colnames visinfo where cv: "cv = (colnames, visinfo)" by (cases cv)
      let ?opts = "filter (\<lambda>c. c \<noteq> ''FLAG'') colnames"
      let ?s2 = "?s1\<lparr>axis_opts := ?opts, vis_colinfo := visinfo, select_x_options := ?opts\<rparr>"
      have nf: "''FLAG'' \<notin> set ?opts" by simp
      have keys: "fst ` set visinfo \<subseteq> set VIS_COLUMNS"
        using load_ms_columns_keys [of fs "fs_abspath fs v" colnames visinfo] Inr cv by simp
      have s2: "flag_state fc ?s2"
        using s1 keys by (auto simp add: flag_state_def flag_discipline_def)
      have last: "flag_state fc (snd (None,
                    t\<lparr>plot_button_disabled := False, export_button_disabled := False,
                      flag_col_global := (if ''FLAG'' \<in> set colnames then Some ''FLAG'' else None)\<rparr>))"
        if "flag_state fc t" for t :: "'a app_state"
        using that by (auto simp add: flag_state_def flag_discipline_def)
      have grp: "flag_state fc (snd (and_then
                    (update_corr_visibility fs
                       (t\<lparr>select_group_options := ''None'' # ?opts, select_group_value := ''None''\<rparr>))
                    (\<lambda>s6. (None,
                       s6\<lparr>plot_button_disabled := False, export_button_disabled := False,
                          flag_col_global :=
                            (if ''FLAG'' \<in> set colnames then Some ''FLAG'' else None)\<rparr>))))"
        if "flag_state fc t" for t :: "'a app_state"
      proof (rule and_then_inv)
        show "flag_state fc (snd (update_corr_visibility fs
                (t\<lparr>select_group_options := ''None'' # ?opts, select_group_value := ''None''\<rparr>)))"
          using that by (simp add: ucv_flag_state) (auto simp add: flag_state_def flag_discipline_def)
      next
        fix u :: "'a app_state" assume "flag_state fc u"
        then show "flag_state fc (snd (None,
                    u\<lparr>plot_button_disabled := False, export_button_disabled := False,
                      flag_col_global := (if ''FLAG'' \<in> set colnames then Some ''FLAG'' else None)\<rparr>))"
          by (rule last)
      qed
      have ystep: "flag_state fc (snd (
                    if length ?opts < 2
                    then (Some IndexError, t\<lparr>select_y_options := ?opts\<rparr>)
                    else and_then
                           (assign_select_y fs (Some (?opts ! 1)) (t\<lparr>select_y_options := ?opts\<rparr>))
                           (\<lambda>s5. and_then
                              (update_corr_visibility fs
                                 (s5\<lparr>select_group_options := ''None'' # ?opts,
                                      select_group_value := ''None''\<rparr>))
                              (\<lambda>s6. (None,
                                 s6\<lparr>plot_button_disabled := False, export_button_disabled := False,
                                    flag_col_global :=
                                      (if ''FLAG'' \<in> set colnames then Some ''FLAG'' else None)\<rparr>)))))"
        if t: "flag_state fc t" for t :: "'a app_state"
      proof -
        have ty: "flag_state fc (t\<lparr>select_y_options := ?opts\<rparr>)"
          using t by (auto simp add: flag_state_def flag_discipline_def)
        show ?thesis
        proof (cases "length ?opts < 2")
          case True
          with ty show ?thesis by simp
        next
          case False
          have "flag_state fc (snd (and_then
                           (assign_select_y fs (Some (?opts ! 1)) (t\<lparr>select_y_options := ?opts\<rparr>))
                           (\<lambda>s5. and_then
                              (update_corr_visibility fs
                                 (s5\<lparr>select_group_options := ''None'' # ?opts,
                                      select_group_value := ''None''\<rparr>))
                              (\<lambda>s6. (None,
                                 s6\<lparr>plot_button_disabled := False, export_button_disabled := False,
                                    flag_col_global :=
                                      (if ''FLAG'' \<in> set colnames then Some ''FLAG'' else None)\<rparr>)))))"
            by (rule and_then_inv) (rule assign_select_y_flag_state [OF ty], rule grp)
          with False show ?thesis by simp
        qed
      qed
      have "flag_state fc (snd (
              if length ?opts < 1 then (Some IndexError, ?s2)
              else and_then (assign_select_x fs (Some (?opts ! 0)) ?s2)
                (\<lambda>s3. if length ?opts < 2
                    then (Some IndexError, s3\<lparr>select_y_options := ?opts\<rparr>)
                    else and_then
                           (assign_select_y fs (Some (?opts ! 1)) (s3\<lparr>select_y_options := ?opts\<rparr>))
                           (\<lambda>s5. and_then
                              (update_corr_visibility fs
                                 (s5\<lparr>select_group_options := ''None'' # ?opts,
                                      select_group_value := ''None''\<rparr>))
                              (\<lambda>s6. (None,
                                 s6\<lparr>plot_button_disabled := False, export_button_disabled := False,
                                    flag_col_global :=
                                      (if ''FLAG'' \<in> set colnames then Some ''FLAG'' else None)\<rparr>))))))"
      proof (cases "length ?opts < 1")
        case True
        with s2 show ?thesis by simp
      next
        case False
        have "flag_state fc (snd (and_then (assign_select_x fs (Some (?opts ! 0)) ?s2)
                (\<lambda>s3. if length ?opts < 2
                    then (Some IndexError, s3\<lparr>select_y_options := ?opts\<rparr>)
                    else and_then
                           (assign_select_y fs (Some (?opts ! 1)) (s3\<lparr>select_y_options := ?opts\<rparr>))
                           (\<lambda>s5. and_then
                              (update_corr_visibility fs
                                 (s5\<lparr>select_group_options := ''None'' # ?opts,
                                      select_group_value := ''None''\<rparr>))
                              (\<lambda>s6. (None,
                                 s6\<lparr>plot_button_disabled := False, export_button_disabled := False,
                                    flag_col_global :=
                                      (if ''FLAG'' \<in> set colnames then Some ''FLAG'' else None)\<rparr>))))))"
          by (rule and_then_inv) (rule assign_select_x_flag_state [OF s2], rule ystep)
        with False show ?thesis by simp
      qed
      then show ?thesis
        using Some \<open>v \<noteq> []\<close> Inr cv by (simp add: ms_chosen_def Let_def)
    qed
  qed
qed

lemma update_ms_list_flag_state:
  assumes "flag_state fc s"
  shows "flag_state fc (snd (update_ms_list fs s))"
proof (cases "list_possible_ms_dirs fs ''.''")
  case (Inl e)
  with assms show ?thesis by (simp add: update_ms_list_def)
next
  case (Inr dirs)
  let ?s0 = "s\<lparr>ms_select_options := dirs\<rparr>"
  have s0: "flag_state fc ?s0"
    using assms by (auto simp add: flag_state_def flag_discipline_def)
  have a: "flag_state fc (snd (assign_ms_select fs None ?s0))"
  proof (cases "ms_select_value ?s0 = None")
    case True
    with s0 show ?thesis by (simp add: assign_ms_select_def)
  next
    case False
    have "flag_state fc (?s0\<lparr>ms_select_value := None\<rparr>)"
      using s0 by (auto simp add: flag_state_def flag_discipline_def)
    from ms_chosen_flag_state [OF this, of fs] False show ?thesis
      by (auto simp add: assign_ms_select_def)
  qed
  have "flag_state fc (snd (and_then (assign_ms_select fs None ?s0) (\<lambda>s1.
            (None,
             s1\<lparr>axis_opts := [], vis_colinfo := [],
                select_x_options := [], select_y_options := [],
                select_group_options := [''None''], select_corr_options := [],
                plot_button_disabled := True, export_button_disabled := True,
                status_text := [], outfig_title := ''Scribble Plot'',
                render_data := None\<rparr>))))"
  proof (rule and_then_inv [where P = "flag_state fc"])
    show "flag_state fc (snd (assign_ms_select fs None ?s0))" by (rule a)
  next
    fix t :: "'a app_state" assume "flag_state fc t"
    then show "flag_state fc (snd (None,
             t\<lparr>axis_opts := [], vis_colinfo := [],
                select_x_options := [], select_y_options := [],
                select_group_options := [''None''], select_corr_options := [],
                plot_button_disabled := True, export_button_disabled := True,
                status_text := [], outfig_title := ''Scribble Plot'',
                render_data := None\<rparr>))"
      by (auto simp add: flag_state_def flag_discipline_def)
  qed
  with Inr show ?thesis by (simp add: update_ms_list_def)
qed

lemma render_frame_flag_state:
  "flag_state fc (snd (render_frame r x y u df s)) = flag_state fc s"
  by (cases "r df x y") (simp_all add: render_frame_def flag_state_def flag_discipline_def)

lemma load_selection_flag_state:
  "flag_state fc (snd (load_selection r fs p u s)) = flag_state fc s"
  by (simp add: load_selection_def Let_def render_frame_flag_state
      split: sum.split option.split)

lemma run_plot_flag_state:
  "flag_state fc (snd (run_plot r fs s)) = flag_state fc s"
  by (simp add: run_plot_def load_selection_flag_state split: option.split)
     (simp add: flag_state_def flag_discipline_def)

lemma handle_flag_state:
  assumes "flag_state fc s"
  shows "flag_state fc (snd (handle r fs ev s))"
proof (cases ev)
  case ClickReload
  with assms show ?thesis by (simp add: handle_def update_ms_list_flag_state)
next
  case (ChooseMs v)
  show ?thesis
  proof (cases "ms_select_value s = v")
    case True
    with ChooseMs assms show ?thesis by (simp add: handle_def assign_ms_select_def)
  next
    case False
    have "flag_state fc (s\<lparr>ms_select_value := v\<rparr>)"
      using assms by (auto simp add: flag_state_def flag_discipline_def)
    from ms_chosen_flag_state [OF this, of fs] False ChooseMs show ?thesis
      by (auto simp add: handle_def assign_ms_select_def)
  qed
next
  case (ChooseX v)
  with assms show ?thesis by (simp add: handle_def assign_select_x_flag_state)
next
  case (ChooseY v)
  with assms show ?thesis by (simp add: handle_def assign_select_y_flag_state)
next
  case (ChooseGroup g)
  with assms show ?thesis by (auto simp add: handle_def flag_state_def flag_discipline_def)
next
  case (ChooseCorr cs)
  with assms show ?thesis by (auto simp add: handle_def flag_state_def flag_discipline_def)
next
  case ClickPlot
  with assms show ?thesis by (simp add: handle_def run_plot_flag_state)
next
  case ClickExport
  with assms show ?thesis
    by (auto simp add: handle_def export_png_def flag_state_def flag_discipline_def)
qed

lemma run_events_flag_state:
  "flag_state fc s \<Longrightarrow> flag_state fc (run_events r fs evs s)"
  by (induction evs arbitrary: s) (simp_all add: handle_flag_state)

lemma initial_flag_state: "flag_state None initial_state"
  by (simp add: flag_state_def flag_discipline_def initial_state_def)

lemma bokeh_app_flag_state: "flag_state None (snd (bokeh_app fs))"
proof (cases "list_possible_ms_dirs fs ''.''")
  case (Inl e)
  then show ?thesis by (simp add: bokeh_app_def initial_flag_state)
next
  case (Inr dirs)
  have "flag_state None (initial_state\<lparr>ms_select_options := dirs\<rparr>)"
    by (simp add: flag_state_def flag_discipline_def initial_state_def)
  from update_ms_list_flag_state [OF this] Inr show ?thesis
    by (simp add: bokeh_app_def)
qed














subsection \<open>The flag column of the application\<close>

text \<open>
  In the application no callback assigns the variable \<open>flag_col\<close> of \<open>bokeh_app\<close>:
  the \<open>global\<close> statement of \<open>ms_chosen\<close> binds the module-level name.  In every
  state a session reaches the variable is \<open>None\<close>, so that \<open>run_plot\<close> calls
  \<open>load_ms_data\<close> without a flag column.
\<close>

theorem flag_col_of_run_plot_is_none:
  "flag_col_local (run_events r fs evs (snd (bokeh_app fs))) = None"
proof -
  have "flag_state None (run_events r fs evs (snd (bokeh_app fs)))"
    by (rule run_events_flag_state [OF bokeh_app_flag_state])
  then show ?thesis by (simp add: flag_state_def)
qed

text \<open>
  In the example session the table has a FLAG column and the second of the four
  samples of the first correlation is flagged; all four are plotted.
\<close>

theorem flag_col_of_run_plot_is_none_witness:
  "flat_flags ex_table (Some 0) ''FLAG'' = Inr (BoolArr (NDArray [4] [False, True, False, False])) \<and>
   flag_col_local ex_state = None \<and>
   flag_col_global ex_state = Some ''FLAG'' \<and>
   status_text (snd (run_plot ex_rasterize ex_fs ex_state)) = ''Plotted 4 points.''"
proof -
  have a: "flat_flags ex_table (Some 0) ''FLAG'' =
             Inr (BoolArr (NDArray [4] [False, True, False, False]))"
    by code_simp
  have b: "flag_col_local ex_state = None"
    using flag_col_of_run_plot_is_none
            [where fs = ex_fs and r = ex_rasterize
               and evs = "[ChooseMs (Some ''obs.ms''), ChooseX (Some ''CORRECTED_DATA''),
                           ChooseY (Some ''DATA'')]"]
    by (simp only: ex_state_reached)
  have c: "flag_col_global ex_state = Some ''FLAG''"
    by (simp add: ex_state_def)
  have d: "status_text (snd (run_plot ex_rasterize ex_fs ex_state)) = ''Plotted 4 points.''"
    by code_simp
  from a b c d show ?thesis by blast
qed

subsection \<open>The flag column among the requested columns\<close>

lemma ex_controls_created:
  "on_load ex_fs ex_page =
     (None, ex_page\<lparr>page_status := loaded_message ''/data/obs.ms'',
                    plot_layout_children := [ex_controls]\<rparr>)"
  by code_simp

lemma col_index_bool_mismatch:
  assumes "col_shape a = [n1]" "shape m = [n2]" "n1 \<noteq> n2"
  shows "col_index a (BoolArr m) = Inl IndexError"
  using assms by (cases a) (simp_all add: bool_index_def)

lemma bool_index_error:
  "bool_index x m = Inl e \<Longrightarrow> e = IndexError"
  by (auto simp add: bool_index_def Let_def split: list.splits if_splits)

lemma col_index_bool_error:
  assumes "col_index a (BoolArr m) = Inl e"
  shows "e = IndexError"
  using assms
  by (cases a) (auto simp add: map_sum_def split: sum.splits dest: bool_index_error)

lemma mask_loop_bool_mismatch:
  assumes "(k, a) \<in> set arrs" "col_shape a = [n1]" "shape m = [n2]" "n1 \<noteq> n2"
  shows "mask_loop (BoolArr m) arrs = Inl IndexError"
  using assms(1)
proof (induction arrs)
  case Nil
  then show ?case by simp
next
  case (Cons kb arrs)
  obtain k' b where kb: "kb = (k', b)" by (cases kb)
  show ?case
  proof (cases "col_index b (BoolArr m)")
    case (Inl e)
    with col_index_bool_error [OF Inl] kb show ?thesis by simp
  next
    case (Inr b')
    with col_index_bool_mismatch [OF assms(2,3,4)] have "(k, a) \<noteq> (k', b)" by auto
    with Cons.prems kb have "(k, a) \<in> set arrs" by auto
    from Cons.IH [OF this] kb Inr show ?thesis by simp
  qed
qed

text \<open>
  When FLAG itself is among the requested columns, as \<open>run_plot\<close> requests it
  whenever it knows a flag column, and a correlation is selected, the FLAG column is
  stored whole while the mask is cut to the correlation: with two or more correlations
  the mask is shorter than the stored column and \<open>load_ms_data\<close> raises IndexError.
  The built copy then reports an error in place of the plot.
\<close>

theorem flag_among_usecols_breaks_mask:
  assumes tab: "fs_table fs p = Some t"
    and has: "''FLAG'' \<in> set (tb_colnames t)"
    and flag: "getcol t ''FLAG'' = Inr (BoolArr f)"
    and shp: "shape f = [r, c, n]" and len: "length (items f) = r * c * n"
    and pos: "0 < r" "0 < c" "2 \<le> n"
    and idx: "0 \<le> k" "k < int n"
    and req: "''FLAG'' \<in> set usecols"
    and cols: "\<forall>c \<in> set usecols. \<exists>d. flat_data t (Some k) c = Inr d"
  shows "load_ms_data fs p usecols (Some k) (Some ''FLAG'') = Inl IndexError"
proof -
  from load_loop_stored [OF cols]
  obtain arrs where ll: "load_loop t (Some k) usecols [] = Inr arrs"
    and mem: "\<forall>k' a. (k', a) \<in> set arrs \<longleftrightarrow> k' \<in> set usecols \<and> flat_data t (Some k) k' = Inr a"
    by blast
  have nv: "''FLAG'' \<notin> set VIS_COLUMNS" by (simp add: VIS_COLUMNS_def)
  have stored: "flat_data t (Some k) ''FLAG'' = Inr (BoolArr (flatten f))"
    using nv flag shp by (simp add: flat_data_def col_ndim_def)
  with mem req have in_arrs: "(''FLAG'', BoolArr (flatten f)) \<in> set arrs" by simp
  have sh1: "col_shape (BoolArr (flatten f)) = [r * c * n]"
    using len by (simp add: flatten_def)
  let ?cut = "NDArray [r, c] (map (\<lambda>i. items f ! (i * n + nat k)) [0..<r * c])"
  have sl: "slice_last f k = Inr ?cut"
    using shp idx by (simp add: slice_last_def Let_def)
  have ff: "flat_flags t (Some k) ''FLAG'' = Inr (BoolArr (flatten ?cut))"
    using flag shp sl by (simp add: flat_flags_def col_ndim_def)
  let ?m = "NDArray (shape (flatten ?cut)) (map Not (items (flatten ?cut)))"
  have inv: "col_invert (BoolArr (flatten ?cut)) = Inr (BoolArr ?m)" by simp
  have sh2: "shape ?m = [r * c]" by (simp add: flatten_def)
  have "r * c * n \<noteq> r * c" using pos by simp
  from mask_loop_bool_mismatch [OF in_arrs sh1 sh2 this]
  have ml: "mask_loop (BoolArr ?m) arrs = Inl IndexError" .
  show ?thesis
    using tab has ll ff inv ml
    by (simp add: load_ms_data_def open_table_def del: col_invert.simps)
qed

text \<open>
  In the built copy's controls for the example table, CORRECTED\_DATA against DATA
  requests FLAG too; the stored FLAG has eight values and the mask four.
\<close>

theorem flag_among_usecols_breaks_mask_witness:
  "plot_usecols ''CORRECTED_DATA'' ''DATA'' None (Some ''FLAG'') [''DATA'', ''CORRECTED_DATA''] =
     [''CORRECTED_DATA'', ''DATA'', ''FLAG''] \<and>
   load_ms_data ex_fs ''/data/obs.ms'' [''CORRECTED_DATA'', ''DATA'', ''FLAG''] (Some 0) (Some ''FLAG'') =
     Inl IndexError \<and>
   build_run_plot ex_rasterize (\<lambda>e. ''IndexError'') ex_fs
       (ex_controls\<lparr>ctl_select_x_value := ''CORRECTED_DATA''\<rparr>) =
     (None, ex_controls\<lparr>ctl_select_x_value := ''CORRECTED_DATA'',
              plot_status :=
                ''<span style='color:red;'>Error loading MS data: IndexError</span>''\<rparr>)"
proof -
  let ?f = "NDArray [2, 2, 2] [False, False, True, True, False, True, False, False]"
  have a: "fs_table ex_fs ''/data/obs.ms'' = Some ex_table" by code_simp
  have b: "''FLAG'' \<in> set (tb_colnames ex_table)" by code_simp
  have c: "getcol ex_table ''FLAG'' = Inr (BoolArr ?f)" by code_simp
  have d: "shape ?f = [2, 2, 2]" "length (items ?f) = 2 * 2 * 2" by simp_all
  have e: "(0::nat) < 2" "(2::nat) \<le> 2" "(0::int) \<le> 0" "(0::int) < int 2" by simp_all
  have f: "''FLAG'' \<in> set [''CORRECTED_DATA'', ''DATA'', ''FLAG'']" by simp
  have g1: "flat_data ex_table (Some 0) ''CORRECTED_DATA'' =
              Inr (NumArr (NDArray [4] [Sample ''1.1'' None, Sample ''1.3'' None,
                                       Sample ''1.5'' None, Sample ''1.7'' None]))"
    and g2: "flat_data ex_table (Some 0) ''DATA'' =
              Inr (NumArr (NDArray [4] [Sample ''0.1'' None, Sample ''0.3'' None,
                                       Sample ''0.5'' None, Sample ''0.7'' None]))"
    and g3: "flat_data ex_table (Some 0) ''FLAG'' = Inr (BoolArr (flatten ?f))"
    by code_simp+
  have g: "\<forall>c \<in> set [''CORRECTED_DATA'', ''DATA'', ''FLAG''].
             \<exists>d. flat_data ex_table (Some 0) c = Inr d"
    using g1 g2 g3 by simp
  have l: "load_ms_data ex_fs ''/data/obs.ms'' [''CORRECTED_DATA'', ''DATA'', ''FLAG'']
             (Some 0) (Some ''FLAG'') = Inl IndexError"
    by (rule flag_among_usecols_breaks_mask [OF a b c d e(1) e(1) e(2) e(3) e(4) f g])
  have u: "plot_usecols ''CORRECTED_DATA'' ''DATA'' None (Some ''FLAG'') [''DATA'', ''CORRECTED_DATA''] =
     [''CORRECTED_DATA'', ''DATA'', ''FLAG'']"
    by code_simp
  have r: "build_run_plot ex_rasterize (\<lambda>e. ''IndexError'') ex_fs
       (ex_controls\<lparr>ctl_select_x_value := ''CORRECTED_DATA''\<rparr>) =
     (None, ex_controls\<lparr>ctl_select_x_value := ''CORRECTED_DATA'',
              plot_status :=
                ''<span style='color:red;'>Error loading MS data: IndexError</span>''\<rparr>)"
    by code_simp
  from u l r show ?thesis by blast
qed

end
